theory Spec2Isabelle
  imports Complex_Main "HOL-Library.Multiset"
begin

section \<open>Values shared by the models\<close>

text \<open>
  Conventions of the embedding.
  \<^item> A Python \<open>float\<close> is a \<^typ>\<open>real\<close>: sums, comparisons and quotients are the
    exact ones, so the theorems below speak about the arithmetic the code writes down and
    not about binary rounding of intermediate results.
  \<^item> A naive \<open>datetime\<close> is an \<^typ>\<open>int\<close>: the number of microseconds since
    1970-01-01 00:00:00 on the naive time line. The clock (\<open>datetime.utcnow()\<close>, \<open>date.today()\<close>) and \<open>uuid.uuid4()\<close> are
    inputs of the functions that read them.
  \<^item> An f-string is the list of its literal parts and of the numbers it formats, each with
    its format specification, so that no float formatting has to be modelled.
  \<^item> An exception is a value of \<open>exn\<close>; a function that can raise returns \<open>exn + 'a\<close>.
\<close>

type_synonym datetime = int

datatype fpart = Lit string | Fmt real string | FmtInt int

type_synonym fstring = "fpart list"

datatype jvalue = JStr string | JNum real | JInt int

datatype exn =
    NotImplementedError
  | ValueError
  | ValidationError
  | ZeroDivisionError
  | StatisticsError

text \<open>\<open>x or y\<close> on an optional float: \<open>None\<close> and \<open>0.0\<close> are falsy.\<close>

definition or_float :: "real option \<Rightarrow> real \<Rightarrow> real" where
  "or_float x y = (case x of None \<Rightarrow> y | Some v \<Rightarrow> if v = 0 then y else v)"

text \<open>\<open>a / b\<close> on floats raises \<open>ZeroDivisionError\<close> when \<open>b\<close> is zero.\<close>

definition py_div :: "real \<Rightarrow> real \<Rightarrow> exn + real" where
  "py_div a b = (if b = 0 then Inl ZeroDivisionError else Inr (a / b))"

text \<open>
  \<open>round(x, 2)\<close>: the nearest multiple of 1/100, a tie going to the even hundredth.
\<close>

definition round2 :: "real \<Rightarrow> real" where
  "round2 x =
     (let y = x * 100; f = \<lfloor>y\<rfloor>; d = y - of_int f in
      (if d < 1 / 2 then of_int f
       else if d > 1 / 2 then of_int (f + 1)
       else if even f then of_int f else of_int (f + 1)) / 100)"

section \<open>config.py\<close>

record Settings =
  max_position_size :: real
  max_total_exposure :: real
  paper_trading :: bool

definition default_settings :: Settings where
  "default_settings =
     \<lparr>Settings.max_position_size = 100, max_total_exposure = 1000, paper_trading = True\<rparr>"

section \<open>models/trade.py, models/market.py\<close>

datatype TradeStatus = OPEN | RESOLVED_WIN | RESOLVED_LOSS | CANCELLED

fun TradeStatus_value :: "TradeStatus \<Rightarrow> string" where
  "TradeStatus_value OPEN = ''open''"
| "TradeStatus_value RESOLVED_WIN = ''resolved_win''"
| "TradeStatus_value RESOLVED_LOSS = ''resolved_loss''"
| "TradeStatus_value CANCELLED = ''cancelled''"

text \<open>\<open>TradeStatus(s)\<close> and \<open>TradeSide(s)\<close>: the member with that value, or \<open>ValueError\<close>.\<close>

definition TradeStatus_of :: "string \<Rightarrow> exn + TradeStatus" where
  "TradeStatus_of s =
     (if s = ''open'' then Inr OPEN
      else if s = ''resolved_win'' then Inr RESOLVED_WIN
      else if s = ''resolved_loss'' then Inr RESOLVED_LOSS
      else if s = ''cancelled'' then Inr CANCELLED
      else Inl ValueError)"

datatype TradeSide = YES | NO

fun TradeSide_value :: "TradeSide \<Rightarrow> string" where
  "TradeSide_value YES = ''yes''"
| "TradeSide_value NO = ''no''"

definition TradeSide_of :: "string \<Rightarrow> exn + TradeSide" where
  "TradeSide_of s =
     (if s = ''yes'' then Inr YES else if s = ''no'' then Inr NO else Inl ValueError)"

record EntryContext =
  signal_strength :: real
  expected_value :: real
  reasoning :: string
  market_yes_price :: "real option"
  market_no_price :: "real option"
  market_volume :: "real option"
  execution_mode :: string

text \<open>A row of the table \<open>trades\<close> (class \<open>TradeDB\<close>): side and status are strings.\<close>

record TradeDB =
  id :: string
  created_at :: datetime
  updated_at :: datetime
  platform :: string
  market_id :: string
  market_question :: string
  market_category :: "string option"
  market_end_date :: "datetime option"
  side :: string
  entry_price :: real
  amount :: real
  shares :: "real option"
  strategy :: string
  entry_context :: "EntryContext option"
  status :: string
  resolution_date :: "datetime option"
  resolution_outcome :: "string option"
  closing_price :: "real option"
  pnl :: "real option"
  roi :: "real option"
  clv :: "real option"
  was_good_trade :: "bool option"

text \<open>
  The pydantic model \<open>Trade\<close>: side and status are enum members, and construction
  validates \<open>0.01 \<le> entry_price \<le> 0.99\<close> and \<open>amount > 0\<close>.
\<close>

record Trade =
  id :: string
  created_at :: datetime
  updated_at :: datetime
  platform :: string
  market_id :: string
  market_question :: string
  market_category :: "string option"
  market_end_date :: "datetime option"
  side :: TradeSide
  entry_price :: real
  amount :: real
  shares :: "real option"
  strategy :: string
  entry_context :: "EntryContext option"
  status :: TradeStatus
  resolution_date :: "datetime option"
  resolution_outcome :: "string option"
  closing_price :: "real option"
  pnl :: "real option"
  roi :: "real option"
  clv :: "real option"
  was_good_trade :: "bool option"

definition Trade_valid :: "Trade \<Rightarrow> bool" where
  "Trade_valid t \<longleftrightarrow>
     1 / 100 \<le> Trade.entry_price t \<and> Trade.entry_price t \<le> 99 / 100 \<and> 0 < Trade.amount t"

record Market =
  platform :: string
  market_id :: string
  question :: string
  category :: "string option"
  end_date :: "datetime option"
  yes_price :: "real option"
  no_price :: "real option"
  volume :: "real option"

record MarketOpportunity =
  market :: Market
  strategy :: string
  signal_strength :: real
  recommended_side :: string
  recommended_amount :: real
  expected_value :: real
  reasoning :: string

section \<open>trading.py\<close>

record Position =
  trade_id :: string
  platform :: string
  market_id :: string
  market_question :: string
  side :: string
  entry_price :: real
  amount :: real
  shares :: real
  current_value :: real
  unrealized_pnl :: real
  strategy :: string
  opened_at :: datetime

record ExposureReport =
  total_exposure :: real
  available_capital :: real
  position_count :: nat
  by_platform :: "string \<rightharpoonup> real"
  by_strategy :: "string \<rightharpoonup> real"
  daily_traded :: real
  daily_limit :: real
  daily_remaining :: real

record RiskCheckResult =
  allowed :: bool
  reason :: fstring
  details :: "(string \<times> jvalue) list"

record TradeResult =
  success :: bool
  trade :: "Trade option"
  error :: "fstring option"
  paper_trade :: bool

record RiskManager =
  max_position_size :: real
  max_total_exposure :: real
  max_daily_volume :: real
  max_positions_per_market :: int

subsection \<open>RiskManager\<close>

definition RiskManager_init :: "real \<Rightarrow> real \<Rightarrow> real option \<Rightarrow> int \<Rightarrow> RiskManager" where
  "RiskManager_init mps mte mdv mppm =
     \<lparr>RiskManager.max_position_size = mps,
      max_total_exposure = mte,
      max_daily_volume = or_float mdv (mte * 2),
      max_positions_per_market = mppm\<rparr>"

text \<open>\<open>RiskManager()\<close>: every argument at its default.\<close>

definition RiskManager_default :: "Settings \<Rightarrow> RiskManager" where
  "RiskManager_default settings =
     RiskManager_init (Settings.max_position_size settings)
       (Settings.max_total_exposure settings) None 1"

definition check_limits ::
  "RiskManager \<Rightarrow> MarketOpportunity \<Rightarrow> ExposureReport \<Rightarrow> Position list \<Rightarrow> RiskCheckResult"
where
  "check_limits self opportunity current_exposure existing_positions =
     (let trade_amount = recommended_amount opportunity;
          new_total = total_exposure current_exposure + trade_amount;
          new_daily = daily_traded current_exposure + trade_amount;
          market_positions =
            filter (\<lambda>p. Position.platform p = Market.platform (market opportunity)
                       \<and> Position.market_id p = Market.market_id (market opportunity))
              existing_positions
      in
      if trade_amount > RiskManager.max_position_size self then
        \<lparr>allowed = False,
         reason = [Lit ''Trade amount $'', Fmt trade_amount ''.2f'',
                   Lit '' exceeds max position size $'',
                   Fmt (RiskManager.max_position_size self) ''.2f''],
         details = [(''limit'', JStr ''max_position_size''),
                    (''requested'', JNum trade_amount),
                    (''max'', JNum (RiskManager.max_position_size self))]\<rparr>
      else if new_total > RiskManager.max_total_exposure self then
        \<lparr>allowed = False,
         reason = [Lit ''Trade would exceed max total exposure. Current: $'',
                   Fmt (total_exposure current_exposure) ''.2f'',
                   Lit '', After: $'', Fmt new_total ''.2f'',
                   Lit '', Max: $'', Fmt (RiskManager.max_total_exposure self) ''.2f''],
         details = [(''limit'', JStr ''max_total_exposure''),
                    (''current'', JNum (total_exposure current_exposure)),
                    (''after'', JNum new_total),
                    (''max'', JNum (RiskManager.max_total_exposure self))]\<rparr>
      else if new_daily > max_daily_volume self then
        \<lparr>allowed = False,
         reason = [Lit ''Trade would exceed daily limit. Today: $'',
                   Fmt (daily_traded current_exposure) ''.2f'',
                   Lit '', After: $'', Fmt new_daily ''.2f'',
                   Lit '', Limit: $'', Fmt (max_daily_volume self) ''.2f''],
         details = [(''limit'', JStr ''daily_volume''),
                    (''today'', JNum (daily_traded current_exposure)),
                    (''after'', JNum new_daily),
                    (''max'', JNum (max_daily_volume self))]\<rparr>
      else if int (length market_positions) \<ge> max_positions_per_market self then
        \<lparr>allowed = False,
         reason = [Lit ''Already have '', FmtInt (int (length market_positions)),
                   Lit '' position(s) in this market (max: '',
                   FmtInt (max_positions_per_market self), Lit '')''],
         details = [(''limit'', JStr ''positions_per_market''),
                    (''current'', JInt (int (length market_positions))),
                    (''max'', JInt (max_positions_per_market self))]\<rparr>
      else
        \<lparr>allowed = True,
         reason = [Lit ''All risk checks passed''],
         details = [(''trade_amount'', JNum trade_amount),
                    (''new_total_exposure'', JNum new_total),
                    (''new_daily_volume'', JNum new_daily)]\<rparr>)"

text \<open>\<open>details["limit"]\<close>, when the key is present.\<close>

definition limit_tag :: "RiskCheckResult \<Rightarrow> jvalue option" where
  "limit_tag r = map_of (details r) ''limit''"

subsection \<open>PositionManager\<close>

text \<open>
  The session \<open>db\<close> is read as the list of rows of the table. \<open>get_positions\<close> selects the
  rows whose status is \<open>"open"\<close>.
\<close>

definition to_position :: "TradeDB \<Rightarrow> Position" where
  "to_position row =
     \<lparr>trade_id = TradeDB.id row,
      platform = TradeDB.platform row,
      market_id = TradeDB.market_id row,
      market_question = TradeDB.market_question row,
      side = TradeDB.side row,
      entry_price = TradeDB.entry_price row,
      amount = TradeDB.amount row,
      shares = or_float (TradeDB.shares row) 0,
      current_value = TradeDB.amount row,
      unrealized_pnl = 0,
      strategy = TradeDB.strategy row,
      opened_at = TradeDB.created_at row\<rparr>"

definition get_positions :: "TradeDB list \<Rightarrow> Position list" where
  "get_positions db =
     map to_position (filter (\<lambda>t. TradeDB.status t = TradeStatus_value OPEN) db)"

text \<open>\<open>d[k] = d.get(k, 0) + v\<close>\<close>

definition dict_add :: "(string \<rightharpoonup> real) \<Rightarrow> string \<Rightarrow> real \<Rightarrow> (string \<rightharpoonup> real)" where
  "dict_add d k v = d(k \<mapsto> (case d k of None \<Rightarrow> 0 | Some x \<Rightarrow> x) + v)"

text \<open>The loop of \<open>get_exposure\<close> over the positions, on the pair of dictionaries.\<close>

definition group_exposure ::
  "Position list \<Rightarrow> (string \<rightharpoonup> real) \<times> (string \<rightharpoonup> real)" where
  "group_exposure positions =
     fold (\<lambda>p (bp, bs).
             (dict_add bp (Position.platform p) (Position.amount p),
              dict_add bs (Position.strategy p) (Position.amount p)))
       positions (Map.empty, Map.empty)"

text \<open>
  \<open>today_start\<close> is \<open>datetime.combine(date.today(), datetime.min.time())\<close>, read from the
  clock by the caller.
\<close>

definition get_exposure :: "Settings \<Rightarrow> datetime \<Rightarrow> TradeDB list \<Rightarrow> ExposureReport" where
  "get_exposure settings today_start db =
     (let positions = get_positions db;
          total = sum_list (map Position.amount positions);
          (bp, bs) = group_exposure positions;
          today_trades = filter (\<lambda>t. TradeDB.created_at t \<ge> today_start) db;
          traded = sum_list (map TradeDB.amount today_trades);
          lim = Settings.max_total_exposure settings * 2
      in
      \<lparr>total_exposure = total,
       available_capital = max 0 (Settings.max_total_exposure settings - total),
       position_count = length positions,
       by_platform = bp,
       by_strategy = bs,
       daily_traded = traded,
       daily_limit = lim,
       daily_remaining = max 0 (lim - traded)\<rparr>)"

subsection \<open>PaperTrader, LiveTrader\<close>

text \<open>
  What the executors write: the table \<open>trades\<close> and the JSONL trade log. The clock and the
  fresh identifier are read from \<open>Env\<close>.
\<close>

record LogEntry =
  timestamp :: datetime
  action :: string
  trade_id :: string
  strategy :: string
  market_id :: string
  side :: string
  amount :: real
  entry_price :: real
  shares :: real
  reasoning :: string

record World =
  db :: "TradeDB list"
  trade_log :: "LogEntry list"

record Env =
  uuid4 :: string
  utcnow :: datetime
  today_start :: datetime

text \<open>
  The conversion of the stored row to the pydantic \<open>Trade\<close> at the end of
  \<open>execute_trade\<close>: \<open>TradeSide(...)\<close> and \<open>TradeStatus(...)\<close> raise \<open>ValueError\<close> on an
  unknown value, the field constraints raise \<open>ValidationError\<close>.
\<close>

definition to_Trade :: "TradeDB \<Rightarrow> exn + Trade" where
  "to_Trade r =
     (case TradeSide_of (TradeDB.side r) of
        Inl e \<Rightarrow> Inl e
      | Inr sd \<Rightarrow>
         (case TradeStatus_of (TradeDB.status r) of
            Inl e \<Rightarrow> Inl e
          | Inr st \<Rightarrow>
             (let t =
                \<lparr>Trade.id = TradeDB.id r,
                 created_at = TradeDB.created_at r,
                 updated_at = TradeDB.updated_at r,
                 platform = TradeDB.platform r,
                 market_id = TradeDB.market_id r,
                 market_question = TradeDB.market_question r,
                 market_category = TradeDB.market_category r,
                 market_end_date = TradeDB.market_end_date r,
                 side = sd,
                 entry_price = TradeDB.entry_price r,
                 amount = TradeDB.amount r,
                 shares = TradeDB.shares r,
                 strategy = TradeDB.strategy r,
                 entry_context = TradeDB.entry_context r,
                 status = st,
                 resolution_date = None,
                 resolution_outcome = None,
                 closing_price = None,
                 pnl = None,
                 roi = None,
                 clv = None,
                 was_good_trade = None\<rparr>
              in if Trade_valid t then Inr t else Inl ValidationError)))"

definition PaperTrader_execute_trade ::
  "Env \<Rightarrow> MarketOpportunity \<Rightarrow> World \<Rightarrow> (exn + TradeResult) \<times> World" where
  "PaperTrader_execute_trade env opportunity w =
     (let new_id = uuid4 env;
          now = utcnow env;
          price = (if recommended_side opportunity = ''yes''
                   then yes_price (market opportunity)
                   else no_price (market opportunity))
      in
      case price of
        None \<Rightarrow>
          (Inr \<lparr>success = False, trade = None,
                error = Some [Lit ''Invalid entry price: '', Lit ''None''],
                paper_trade = True\<rparr>, w)
      | Some ep \<Rightarrow>
          if ep \<le> 0 then
            (Inr \<lparr>success = False, trade = None,
                  error = Some [Lit ''Invalid entry price: '', Fmt ep []],
                  paper_trade = True\<rparr>, w)
          else
            (let sh = recommended_amount opportunity / ep;
                 db_trade =
                   \<lparr>TradeDB.id = new_id,
                    created_at = now,
                    updated_at = now,
                    platform = Market.platform (market opportunity),
                    market_id = Market.market_id (market opportunity),
                    market_question = question (market opportunity),
                    market_category = category (market opportunity),
                    market_end_date = end_date (market opportunity),
                    side = recommended_side opportunity,
                    entry_price = ep,
                    amount = recommended_amount opportunity,
                    shares = Some sh,
                    strategy = MarketOpportunity.strategy opportunity,
                    entry_context =
                      Some \<lparr>EntryContext.signal_strength =
                               MarketOpportunity.signal_strength opportunity,
                            expected_value = MarketOpportunity.expected_value opportunity,
                            reasoning = MarketOpportunity.reasoning opportunity,
                            market_yes_price = yes_price (market opportunity),
                            market_no_price = no_price (market opportunity),
                            market_volume = volume (market opportunity),
                            execution_mode = ''paper''\<rparr>,
                    status = TradeStatus_value OPEN,
                    resolution_date = None,
                    resolution_outcome = None,
                    closing_price = None,
                    pnl = None,
                    roi = None,
                    clv = None,
                    was_good_trade = None\<rparr>;
                 log_entry =
                   \<lparr>timestamp = now,
                    action = ''paper_trade_executed'',
                    trade_id = new_id,
                    strategy = MarketOpportunity.strategy opportunity,
                    market_id = Market.market_id (market opportunity),
                    side = recommended_side opportunity,
                    amount = recommended_amount opportunity,
                    entry_price = ep,
                    shares = sh,
                    reasoning = MarketOpportunity.reasoning opportunity\<rparr>;
                 w' = \<lparr>db = db w @ [db_trade], trade_log = trade_log w @ [log_entry]\<rparr>
             in
             case to_Trade db_trade of
               Inl e \<Rightarrow> (Inl e, w')
             | Inr t \<Rightarrow>
                 (Inr \<lparr>success = True, trade = Some t, error = None, paper_trade = True\<rparr>,
                  w')))"

definition LiveTrader_execute_trade ::
  "Env \<Rightarrow> MarketOpportunity \<Rightarrow> World \<Rightarrow> (exn + TradeResult) \<times> World" where
  "LiveTrader_execute_trade env opportunity w = (Inl NotImplementedError, w)"

subsection \<open>TradingEngine\<close>

datatype Trader = PaperTrader | LiveTrader

record TradingEngine =
  paper_trading :: bool
  risk_manager :: RiskManager
  trader :: Trader

definition TradingEngine_init :: "Settings \<Rightarrow> bool \<Rightarrow> TradingEngine" where
  "TradingEngine_init settings paper =
     \<lparr>TradingEngine.paper_trading = paper,
      risk_manager = RiskManager_default settings,
      trader = (if paper then PaperTrader else LiveTrader)\<rparr>"

fun execute_trade ::
  "Trader \<Rightarrow> Env \<Rightarrow> MarketOpportunity \<Rightarrow> World \<Rightarrow> (exn + TradeResult) \<times> World" where
  "execute_trade PaperTrader env opportunity w = PaperTrader_execute_trade env opportunity w"
| "execute_trade LiveTrader env opportunity w = LiveTrader_execute_trade env opportunity w"

definition check_risk_limits ::
  "Settings \<Rightarrow> TradingEngine \<Rightarrow> Env \<Rightarrow> MarketOpportunity \<Rightarrow> World \<Rightarrow> RiskCheckResult" where
  "check_risk_limits settings self env opportunity w =
     (let positions = get_positions (db w);
          exposure = get_exposure settings (today_start env) (db w)
      in check_limits (risk_manager self) opportunity exposure positions)"

text \<open>
  \<open>execute_opportunity\<close> first reads the current state (two awaited queries), then decides
  and executes on what it has read. \<open>admit_and_execute\<close> is the part after the reads.
\<close>

definition admit_and_execute ::
  "TradingEngine \<Rightarrow> Env \<Rightarrow> MarketOpportunity \<Rightarrow> bool \<Rightarrow> Position list \<Rightarrow> ExposureReport
     \<Rightarrow> World \<Rightarrow> (exn + TradeResult) \<times> World" where
  "admit_and_execute self env opportunity force positions exposure w =
     (if \<not> force then
        (let risk_check = check_limits (risk_manager self) opportunity exposure positions in
         if \<not> allowed risk_check then
           (Inr \<lparr>success = False, trade = None, error = Some (reason risk_check),
                 paper_trade = TradingEngine.paper_trading self\<rparr>, w)
         else execute_trade (trader self) env opportunity w)
      else execute_trade (trader self) env opportunity w)"

definition execute_opportunity ::
  "Settings \<Rightarrow> TradingEngine \<Rightarrow> Env \<Rightarrow> MarketOpportunity \<Rightarrow> bool \<Rightarrow> World
     \<Rightarrow> (exn + TradeResult) \<times> World" where
  "execute_opportunity settings self env opportunity force w =
     (let positions = get_positions (db w);
          exposure = get_exposure settings (today_start env) (db w)
      in admit_and_execute self env opportunity force positions exposure w)"

subsection \<open>Requests running concurrently\<close>

text \<open>
  Each request to the engine runs \<open>execute_opportunity\<close> as a coroutine with a session of its
  own; the code takes no lock and opens no transaction around the reads, the decision and
  the insert. A request is suspended at its awaited queries, so another request can run
  between its reads and its write. The model gives each request the coarsest two steps this
  allows: \<open>Read i\<close> takes the snapshot of request \<open>i\<close> (positions and exposure, read
  together), \<open>Act i\<close> decides on that snapshot and executes. A schedule is a list of such
  events; an event that is not enabled makes the run undefined.
\<close>

datatype task =
    Waiting
  | Snapshot "Position list" ExposureReport
  | Finished "exn + TradeResult"

datatype event = Read nat | Act nat

record Request =
  env :: Env
  opportunity :: MarketOpportunity
  force :: bool

fun sched_step ::
  "Settings \<Rightarrow> TradingEngine \<Rightarrow> Request list \<Rightarrow> event \<Rightarrow> World \<times> task list
     \<Rightarrow> (World \<times> task list) option" where
  "sched_step settings self reqs (Read i) (w, ts) =
     (if i < length ts \<and> i < length reqs \<and> ts ! i = Waiting then
        Some (w, ts[i := Snapshot (get_positions (db w))
                            (get_exposure settings (today_start (env (reqs ! i))) (db w))])
      else None)"
| "sched_step settings self reqs (Act i) (w, ts) =
     (if i < length ts \<and> i < length reqs then
        (case ts ! i of
           Snapshot positions exposure \<Rightarrow>
             (case admit_and_execute self (env (reqs ! i)) (opportunity (reqs ! i))
                     (force (reqs ! i)) positions exposure w of
                (res, w') \<Rightarrow> Some (w', ts[i := Finished res]))
         | _ \<Rightarrow> None)
      else None)"

fun run_schedule ::
  "Settings \<Rightarrow> TradingEngine \<Rightarrow> Request list \<Rightarrow> event list \<Rightarrow> World \<times> task list
     \<Rightarrow> (World \<times> task list) option" where
  "run_schedule settings self reqs [] st = Some st"
| "run_schedule settings self reqs (ev # evs) st =
     (case sched_step settings self reqs ev st of
        None \<Rightarrow> None
      | Some st' \<Rightarrow> run_schedule settings self reqs evs st')"

section \<open>analysis/improvement.py\<close>

text \<open>Sequencing of computations that can raise.\<close>

definition bind_exn :: "exn + 'a \<Rightarrow> ('a \<Rightarrow> exn + 'b) \<Rightarrow> exn + 'b" where
  "bind_exn m f = (case m of Inl e \<Rightarrow> Inl e | Inr x \<Rightarrow> f x)"

text \<open>\<open>x or e\<close> where \<open>e\<close> can raise and is evaluated only when \<open>x\<close> is falsy.\<close>

definition or_float_exn :: "real option \<Rightarrow> (exn + real) \<Rightarrow> exn + real" where
  "or_float_exn x y = (case x of None \<Rightarrow> y | Some v \<Rightarrow> if v = 0 then y else Inr v)"

text \<open>\<open>c and P(c)\<close> on an optional float \<open>c\<close>, read as a condition.\<close>

definition and_float :: "real option \<Rightarrow> (real \<Rightarrow> bool) \<Rightarrow> bool" where
  "and_float c P = (case c of None \<Rightarrow> False | Some v \<Rightarrow> v \<noteq> 0 \<and> P v)"

text \<open>\<open>statistics.mean\<close> and \<open>statistics.stdev\<close> (the sample standard deviation).\<close>

definition mean :: "real list \<Rightarrow> exn + real" where
  "mean xs = (if xs = [] then Inl StatisticsError else Inr (sum_list xs / real (length xs)))"

definition stdev :: "real list \<Rightarrow> exn + real" where
  "stdev xs =
     (if length xs < 2 then Inl StatisticsError
      else (let m = sum_list xs / real (length xs)
            in Inr (sqrt (sum_list (map (\<lambda>x. (x - m)\<^sup>2) xs) / real (length xs - 1)))))"

definition microseconds_per_day :: int where
  "microseconds_per_day = 86400000000"

text \<open>\<open>datetime(2020, 1, 1)\<close>, in microseconds since 1970-01-01 00:00:00.\<close>

definition datetime_2020_01_01 :: datetime where
  "datetime_2020_01_01 = 1577836800000000"

text \<open>\<open>(a - b).days\<close>\<close>

definition timedelta_days :: "datetime \<Rightarrow> datetime \<Rightarrow> int" where
  "timedelta_days a b = (a - b) div microseconds_per_day"

record TradeAnalysis =
  trade_id :: string
  strategy :: string
  won :: bool
  pnl :: real
  roi :: real
  entry_price :: real
  closing_price :: "real option"
  clv :: "real option"
  beat_closing_line :: "bool option"
  was_good_entry :: bool
  was_good_sizing :: bool
  what_went_right :: "fstring list"
  what_went_wrong :: "fstring list"
  suggested_improvements :: "fstring list"

record GroupMetrics =
  trades :: nat
  wins :: nat
  win_rate :: real
  pnl :: real
  wagered :: real
  roi :: real
  avg_clv :: real

record StrategyPerformance =
  strategy :: string
  period :: string
  start_date :: datetime
  end_date :: datetime
  total_trades :: nat
  open_trades :: nat
  resolved_trades :: nat
  wins :: nat
  losses :: nat
  win_rate :: real
  total_wagered :: real
  total_pnl :: real
  roi :: real
  avg_clv :: real
  clv_positive_count :: nat
  clv_positive_rate :: real
  max_drawdown :: real
  sharpe_ratio :: "real option"
  by_category :: "(string \<times> GroupMetrics) list"
  by_platform :: "(string \<times> GroupMetrics) list"

subsection \<open>ResolutionAnalyzer\<close>

definition ResolutionAnalyzer_calculate_pnl :: "Trade \<Rightarrow> bool \<Rightarrow> exn + real" where
  "ResolutionAnalyzer_calculate_pnl t w =
     (if w then
        bind_exn (py_div (Trade.amount t) (Trade.entry_price t))
          (\<lambda>sh. Inr (sh * (1 - Trade.entry_price t)))
      else Inr (- Trade.amount t))"

definition ResolutionAnalyzer_calculate_clv :: "Trade \<Rightarrow> exn + real option" where
  "ResolutionAnalyzer_calculate_clv t =
     (case Trade.closing_price t of
        None \<Rightarrow> Inr None
      | Some cp \<Rightarrow>
          if Trade.side t = YES \<or> TradeSide_value (Trade.side t) = ''yes'' then
            bind_exn (py_div (cp - Trade.entry_price t) (Trade.entry_price t))
              (\<lambda>q. Inr (Some (round2 (q * 100))))
          else
            (let our_implied_yes = 1 - Trade.entry_price t in
             bind_exn (py_div (our_implied_yes - cp) (1 - Trade.entry_price t))
               (\<lambda>q. Inr (Some (round2 (q * 100))))))"

definition assess_entry_quality :: "Trade \<Rightarrow> real option \<Rightarrow> bool" where
  "assess_entry_quality t c = (case c of None \<Rightarrow> True | Some v \<Rightarrow> v > 0)"

definition assess_sizing_quality :: "Trade \<Rightarrow> bool" where
  "assess_sizing_quality t =
     (if Trade.amount t > 50 then False else if Trade.amount t < 1 then False else True)"

definition identify_positives :: "Trade \<Rightarrow> bool \<Rightarrow> real option \<Rightarrow> fstring list" where
  "identify_positives t w c =
     (let p1 = (case c of
                  None \<Rightarrow> []
                | Some v \<Rightarrow>
                    if v > 0 then
                      [[Lit ''Positive CLV of '', Fmt v ''.1f'',
                        Lit ''% - beat the closing line'']]
                      @ (if v > 10 then [[Lit ''Exceptional edge identified (>10% CLV)'']]
                         else [])
                    else []);
          p2 = (if w then
                  [[Lit ''Trade resolved in our favor'']]
                  @ (if Trade.entry_price t < 3 / 10 then
                       [[Lit ''Correctly identified underpriced longshot'']]
                     else if Trade.entry_price t > 7 / 10 then
                       [[Lit ''Correctly faded overpriced favorite'']]
                     else [])
                else []);
          p3 = (if Trade.strategy t = ''contrarian'' \<and> and_float c (\<lambda>v. v > 0) then
                  [[Lit ''Contrarian view validated - market was wrong'']]
                else []);
          p4 = (if Trade.strategy t = ''momentum'' \<and> w then
                  [[Lit ''Momentum strategy captured directional move'']]
                else []);
          p5 = (case Trade.closing_price t of
                  None \<Rightarrow> []
                | Some cp \<Rightarrow>
                    (let price_move = \<bar>cp - Trade.entry_price t\<bar> in
                     if price_move > 1 / 10 then
                       [[Lit ''Good timing - price moved '', Fmt price_move ''.0%'',
                         Lit '' after entry'']]
                     else []));
          positives = p1 @ p2 @ p3 @ p4 @ p5
      in
      if positives = [] then [[Lit ''No clear positives identified - review needed'']]
      else positives)"

definition identify_negatives :: "Trade \<Rightarrow> bool \<Rightarrow> real option \<Rightarrow> fstring list" where
  "identify_negatives t w c =
     (let n1 = (case c of
                  None \<Rightarrow> []
                | Some v \<Rightarrow>
                    if v < 0 then
                      [[Lit ''Negative CLV of '', Fmt v ''.1f'',
                        Lit ''% - entered at worse price than close'']]
                      @ (if v < - 10 then
                           [[Lit ''Severely mispriced entry (>10% worse than close)'']]
                         else [])
                    else []);
          n2 = (if \<not> w then
                  [[Lit ''Trade resolved against us'']]
                  @ (if Trade.entry_price t > 7 / 10 then
                       [[Lit ''Lost on high-probability position - consider hedging'']]
                     else if Trade.entry_price t < 3 / 10 then
                       [[Lit ''Longshot didn't hit - expected but painful'']]
                     else [])
                else []);
          n3 = (case c of
                  None \<Rightarrow> []
                | Some v \<Rightarrow>
                    if v < 0 \<and> w then
                      [[Lit ''Won despite negative CLV - got lucky, don't repeat this entry'']]
                    else []);
          n4 = (if Trade.amount t > 50 then
                  [[Lit ''Position size $'', Fmt (Trade.amount t) ''.0f'',
                    Lit '' may be too large'']]
                else []);
          n5 = (case Trade.market_category t of
                  None \<Rightarrow> []
                | Some cat \<Rightarrow>
                    if cat \<in> set [''politics'', ''crypto''] then
                      (case c of
                         None \<Rightarrow> []
                       | Some v \<Rightarrow>
                           if v < - 5 then
                             [[Lit ''Underperformed in '', Lit cat,
                               Lit '' - high volatility category'']]
                           else [])
                    else [])
      in n1 @ n2 @ n3 @ n4 @ n5)"

definition suggest_trade_improvements ::
  "Trade \<Rightarrow> bool \<Rightarrow> real option \<Rightarrow> fstring list \<Rightarrow> fstring list" where
  "suggest_trade_improvements t w c negatives =
     (let s1 = (case c of
                  None \<Rightarrow> []
                | Some v \<Rightarrow>
                    (if v < - 5 then
                       [[Lit ''Wait for better entry price - consider limit orders''],
                        [Lit ''Check if news/info was already priced in before entering'']]
                     else [])
                    @ (if v < - 10 then
                         [[Lit ''Review information sources - market knew something we didn't'']]
                       else []));
          s2 = (if Trade.entry_price t > 85 / 100 then
                  [[Lit ''High entry prices leave little room for profit - require higher edge'']]
                else []);
          s3 = (if Trade.entry_price t < 15 / 100 then
                  [[Lit ''Low entry prices are often longshots - ensure sufficient edge'']]
                else []);
          s4 = (if Trade.strategy t = ''momentum'' \<and> and_float c (\<lambda>v. v < 0) then
                  [[Lit ''Momentum entry may have been too late - price already moved'']]
                else []);
          s5 = (if Trade.strategy t = ''contrarian'' \<and> \<not> w \<and> and_float c (\<lambda>v. v < 0) then
                  [[Lit ''Contrarian view may have been wrong - review thesis''],
                   [Lit ''Consider: was this truly contrarian or just wrong?'']]
                else []);
          s6 = (if Trade.amount t > 30 \<and> \<not> w then
                  [[Lit ''Consider smaller position sizes for uncertain bets'']]
                else []);
          s7 = (case Trade.market_end_date t of
                  None \<Rightarrow> []
                | Some e \<Rightarrow>
                    if timedelta_days e (Trade.created_at t) > 30 \<and> and_float c (\<lambda>v. v < 0)
                    then [[Lit ''Long-dated markets: consider scaling in over time'']]
                    else []);
          suggestions = s1 @ s2 @ s3 @ s4 @ s5 @ s6 @ s7
      in
      if suggestions = [] then
        [[Lit ''Continue current approach - this was a reasonable trade'']]
      else suggestions)"

definition analyze_resolved_trade :: "Trade \<Rightarrow> exn + TradeAnalysis" where
  "analyze_resolved_trade t =
     (if Trade.status t \<notin> set [RESOLVED_WIN, RESOLVED_LOSS] then Inl ValueError
      else
        (let w = (Trade.status t = RESOLVED_WIN) in
         bind_exn (or_float_exn (Trade.pnl t) (ResolutionAnalyzer_calculate_pnl t w)) (\<lambda>p.
         bind_exn (if Trade.amount t > 0
                   then bind_exn (py_div p (Trade.amount t)) (\<lambda>q. Inr (q * 100))
                   else Inr 0) (\<lambda>r.
         bind_exn (ResolutionAnalyzer_calculate_clv t) (\<lambda>c.
           (let right = identify_positives t w c;
                wrong = identify_negatives t w c;
                improvements = suggest_trade_improvements t w c wrong
            in
            Inr \<lparr>TradeAnalysis.trade_id = Trade.id t,
                 strategy = Trade.strategy t,
                 won = w,
                 pnl = p,
                 roi = r,
                 entry_price = Trade.entry_price t,
                 closing_price = Trade.closing_price t,
                 clv = c,
                 beat_closing_line = (case c of None \<Rightarrow> None | Some v \<Rightarrow> Some (v > 0)),
                 was_good_entry = assess_entry_quality t c,
                 was_good_sizing = assess_sizing_quality t,
                 what_went_right = right,
                 what_went_wrong = wrong,
                 suggested_improvements = improvements\<rparr>))))))"

subsection \<open>StrategyEvaluator\<close>

definition get_period_start :: "string \<Rightarrow> datetime \<Rightarrow> datetime" where
  "get_period_start p e =
     (if p = ''daily'' then e - microseconds_per_day
      else if p = ''weekly'' then e - 7 * microseconds_per_day
      else if p = ''monthly'' then e - 30 * microseconds_per_day
      else datetime_2020_01_01)"

text \<open>
  \<open>groups[value].append(trade)\<close> on a \<open>defaultdict(list)\<close>: the keys stay in the order of
  their first use.
\<close>

fun groups_append ::
  "(string \<times> Trade list) list \<Rightarrow> string \<Rightarrow> Trade \<Rightarrow> (string \<times> Trade list) list" where
  "groups_append [] k t = [(k, [t])]"
| "groups_append ((k', ts) # g) k t =
     (if k' = k then (k', ts @ [t]) # g else (k', ts) # groups_append g k t)"

text \<open>\<open>getattr(trade, field, None) or "unknown"\<close>\<close>

definition field_or_unknown :: "string option \<Rightarrow> string" where
  "field_or_unknown v = (case v of None \<Rightarrow> ''unknown'' | Some s \<Rightarrow> if s = [] then ''unknown'' else s)"

definition group_metrics :: "Trade list \<Rightarrow> exn + GroupMetrics" where
  "group_metrics group_trades =
     (let w = length (filter (\<lambda>t. Trade.status t = RESOLVED_WIN) group_trades);
          tp = sum_list (map (\<lambda>t. or_float (Trade.pnl t) 0) group_trades);
          tw = sum_list (map Trade.amount group_trades);
          clv_values = map the (filter (\<lambda>c. c \<noteq> None) (map Trade.clv group_trades))
      in
      bind_exn (if group_trades \<noteq> [] then py_div (real w) (real (length group_trades))
                else Inr 0) (\<lambda>wr.
      bind_exn (if tw > 0 then bind_exn (py_div tp tw) (\<lambda>q. Inr (q * 100)) else Inr 0) (\<lambda>r.
      bind_exn (if clv_values \<noteq> [] then mean clv_values else Inr 0) (\<lambda>ac.
        Inr \<lparr>trades = length group_trades,
             wins = w,
             win_rate = wr,
             pnl = tp,
             wagered = tw,
             roi = r,
             avg_clv = ac\<rparr>))))"

fun group_results ::
  "(string \<times> Trade list) list \<Rightarrow> exn + (string \<times> GroupMetrics) list" where
  "group_results [] = Inr []"
| "group_results ((k, ts) # g) =
     bind_exn (group_metrics ts) (\<lambda>m.
     bind_exn (group_results g) (\<lambda>rest. Inr ((k, m) # rest)))"

definition group_by_field ::
  "Trade list \<Rightarrow> (Trade \<Rightarrow> string option) \<Rightarrow> exn + (string \<times> GroupMetrics) list" where
  "group_by_field ts field =
     group_results (fold (\<lambda>t g. groups_append g (field_or_unknown (field t)) t) ts [])"

text \<open>
  The loop of \<open>_calculate_max_drawdown\<close>, on the triple
  \<open>(cumulative_pnl, peak, max_dd)\<close>.
\<close>

definition drawdown_step :: "Trade \<Rightarrow> real \<times> real \<times> real \<Rightarrow> real \<times> real \<times> real" where
  "drawdown_step t s =
     (case s of (cumulative_pnl, peak, max_dd) \<Rightarrow>
        (let cumulative_pnl' = cumulative_pnl + or_float (Trade.pnl t) 0;
             peak' = (if cumulative_pnl' > peak then cumulative_pnl' else peak);
             drawdown = peak' - cumulative_pnl';
             max_dd' = (if drawdown > max_dd then drawdown else max_dd)
         in (cumulative_pnl', peak', max_dd')))"

text \<open>The sort key \<open>t.resolution_date or t.created_at\<close>; \<open>sorted\<close> is stable, as \<open>sort_key\<close> is.\<close>

definition resolution_key :: "Trade \<Rightarrow> datetime" where
  "resolution_key t =
     (case Trade.resolution_date t of None \<Rightarrow> Trade.created_at t | Some d \<Rightarrow> d)"

definition calculate_max_drawdown :: "Trade list \<Rightarrow> real" where
  "calculate_max_drawdown ts =
     (if ts = [] then 0
      else (let sorted_trades = sort_key resolution_key ts
            in snd (snd (fold drawdown_step sorted_trades (0, 0, 0)))))"

definition calculate_sharpe :: "Trade list \<Rightarrow> exn + real option" where
  "calculate_sharpe ts =
     (if length ts < 2 then Inr None
      else
        (let returns = map (\<lambda>t. or_float (Trade.pnl t) 0) ts in
         bind_exn (mean returns) (\<lambda>avg_return.
         bind_exn (stdev returns) (\<lambda>std_return.
           if std_return = 0 then Inr None
           else bind_exn (py_div avg_return std_return) (\<lambda>q. Inr (Some (round2 q)))))))"

text \<open>
  \<open>evaluate_strategy\<close>: \<open>self.trades\<close> and the clock are arguments; \<open>start_date\<close> and
  \<open>end_date\<close> are optional.
\<close>

definition empty_performance ::
  "string \<Rightarrow> string \<Rightarrow> datetime \<Rightarrow> datetime \<Rightarrow> StrategyPerformance" where
  "empty_performance strategy_name p s e =
     \<lparr>StrategyPerformance.strategy = strategy_name,
      period = p, start_date = s, end_date = e,
      total_trades = 0, open_trades = 0, resolved_trades = 0, wins = 0, losses = 0,
      win_rate = 0, total_wagered = 0, total_pnl = 0, roi = 0, avg_clv = 0,
      clv_positive_count = 0, clv_positive_rate = 0, max_drawdown = 0,
      sharpe_ratio = None, by_category = [], by_platform = []\<rparr>"

definition evaluate_strategy ::
  "Trade list \<Rightarrow> datetime \<Rightarrow> string \<Rightarrow> string \<Rightarrow> datetime option \<Rightarrow> datetime option
     \<Rightarrow> exn + StrategyPerformance" where
  "evaluate_strategy self_trades now strategy_name p start_opt end_opt =
     (let e = (case end_opt of None \<Rightarrow> now | Some d \<Rightarrow> d);
          s = (case start_opt of None \<Rightarrow> get_period_start p e | Some d \<Rightarrow> d);
          strategy_trades =
            filter (\<lambda>t. Trade.strategy t = strategy_name
                       \<and> Trade.created_at t \<ge> s \<and> Trade.created_at t \<le> e) self_trades
      in
      if strategy_trades = [] then Inr (empty_performance strategy_name p s e)
      else
        (let resolved =
               filter (\<lambda>t. Trade.status t \<in> set [RESOLVED_WIN, RESOLVED_LOSS]) strategy_trades;
             ws = filter (\<lambda>t. Trade.status t = RESOLVED_WIN) resolved;
             ls = filter (\<lambda>t. Trade.status t = RESOLVED_LOSS) resolved;
             tw = sum_list (map Trade.amount strategy_trades);
             tp = sum_list (map (\<lambda>t. or_float (Trade.pnl t) 0) resolved);
             clv_values = map the (filter (\<lambda>c. c \<noteq> None) (map Trade.clv resolved));
             clv_positive = filter (\<lambda>c. c > 0) clv_values
         in
         bind_exn (if clv_values \<noteq> [] then mean clv_values else Inr 0) (\<lambda>ac.
         bind_exn (group_by_field resolved Trade.market_category) (\<lambda>bc.
         bind_exn (group_by_field resolved (\<lambda>t. Some (Trade.platform t))) (\<lambda>bp.
         bind_exn (if resolved \<noteq> [] then py_div (real (length ws)) (real (length resolved))
                   else Inr 0) (\<lambda>wr.
         bind_exn (if tw > 0 then bind_exn (py_div tp tw) (\<lambda>q. Inr (q * 100))
                   else Inr 0) (\<lambda>r.
         bind_exn (if clv_values \<noteq> []
                   then py_div (real (length clv_positive)) (real (length clv_values))
                   else Inr 0) (\<lambda>cr.
         bind_exn (calculate_sharpe resolved) (\<lambda>sr.
           Inr \<lparr>StrategyPerformance.strategy = strategy_name,
                period = p, start_date = s, end_date = e,
                total_trades = length strategy_trades,
                open_trades = length (filter (\<lambda>t. Trade.status t = OPEN) strategy_trades),
                resolved_trades = length resolved,
                wins = length ws,
                losses = length ls,
                win_rate = wr,
                total_wagered = tw,
                total_pnl = tp,
                roi = r,
                avg_clv = ac,
                clv_positive_count = length clv_positive,
                clv_positive_rate = cr,
                max_drawdown = calculate_max_drawdown resolved,
                sharpe_ratio = sr,
                by_category = bc,
                by_platform = bp\<rparr>)))))))))"

section \<open>scripts/check_resolutions.py\<close>

text \<open>\<open>calculate_clv(trade, closing_price)\<close> of the resolution script, on a stored row.\<close>

definition calculate_clv :: "TradeDB \<Rightarrow> real \<Rightarrow> real \<times> bool" where
  "calculate_clv row cp =
     (let c = (if TradeDB.side row = ''yes'' then cp - TradeDB.entry_price row
               else TradeDB.entry_price row - cp);
          beat_clv = (c > 0)
      in (c, beat_clv))"

section \<open>tests/test_trading.py\<close>

text \<open>The fixtures of the test module, used below as concrete inputs.\<close>

definition make_market :: Market where
  "make_market =
     \<lparr>Market.platform = ''polymarket'', market_id = ''1'',
      question = ''Will it rain tomorrow?'', category = None, end_date = None,
      yes_price = Some (6 / 10), no_price = Some (4 / 10), volume = None\<rparr>"

definition make_opportunity :: "real \<Rightarrow> string \<Rightarrow> Market \<Rightarrow> MarketOpportunity" where
  "make_opportunity a s m =
     \<lparr>market = m, strategy = ''test-strategy'', signal_strength = 8 / 10,
      recommended_side = s, recommended_amount = a, expected_value = 12 / 100,
      reasoning = ''test reasoning''\<rparr>"

definition make_exposure :: "Settings \<Rightarrow> real \<Rightarrow> real \<Rightarrow> ExposureReport" where
  "make_exposure settings tot traded =
     (let lim = Settings.max_total_exposure settings * 2 in
      \<lparr>total_exposure = tot,
       available_capital = max 0 (Settings.max_total_exposure settings - tot),
       position_count = 0,
       by_platform = Map.empty,
       by_strategy = Map.empty,
       daily_traded = traded,
       daily_limit = lim,
       daily_remaining = max 0 (lim - traded)\<rparr>)"

text \<open>\<open>RiskManager(50.0, 100.0, 120.0, 1)\<close> of \<open>test_risk_manager_check_limits_various_scenarios\<close>.\<close>

definition test_risk_manager :: RiskManager where
  "test_risk_manager = RiskManager_init 50 100 (Some 120) 1"

section \<open>main.py\<close>

text \<open>
  \<open>_db_to_trade\<close>: the stored row as a pydantic \<open>Trade\<close>, every field copied; a value
  that the model does not accept raises \<open>ValidationError\<close>.
\<close>

definition db_to_trade :: "TradeDB \<Rightarrow> exn + Trade" where
  "db_to_trade r =
     (case TradeSide_of (TradeDB.side r) of
        Inl _ \<Rightarrow> Inl ValidationError
      | Inr sd \<Rightarrow>
         (case TradeStatus_of (TradeDB.status r) of
            Inl _ \<Rightarrow> Inl ValidationError
          | Inr st \<Rightarrow>
             (let t =
                \<lparr>Trade.id = TradeDB.id r,
                 created_at = TradeDB.created_at r,
                 updated_at = TradeDB.updated_at r,
                 platform = TradeDB.platform r,
                 market_id = TradeDB.market_id r,
                 market_question = TradeDB.market_question r,
                 market_category = TradeDB.market_category r,
                 market_end_date = TradeDB.market_end_date r,
                 side = sd,
                 entry_price = TradeDB.entry_price r,
                 amount = TradeDB.amount r,
                 shares = TradeDB.shares r,
                 strategy = TradeDB.strategy r,
                 entry_context = TradeDB.entry_context r,
                 status = st,
                 resolution_date = TradeDB.resolution_date r,
                 resolution_outcome = TradeDB.resolution_outcome r,
                 closing_price = TradeDB.closing_price r,
                 pnl = TradeDB.pnl r,
                 roi = TradeDB.roi r,
                 clv = TradeDB.clv r,
                 was_good_trade = TradeDB.was_good_trade r\<rparr>
              in if Trade_valid t then Inr t else Inl ValidationError)))"

section \<open>Concrete inputs\<close>

text \<open>
  The row that \<open>insert_trade\<close> of the test module stores (a YES trade at 0.6 in market
  \<open>"1"\<close>), with the identifier given.
\<close>

definition insert_trade ::
  "string \<Rightarrow> real \<Rightarrow> string \<Rightarrow> string \<Rightarrow> string \<Rightarrow> datetime \<Rightarrow> TradeDB" where
  "insert_trade new_id a pf strat st created =
     \<lparr>TradeDB.id = new_id,
      created_at = created,
      updated_at = created,
      platform = pf,
      market_id = ''1'',
      market_question = ''Will it rain tomorrow?'',
      market_category = Some ''weather'',
      market_end_date = None,
      side = ''yes'',
      entry_price = 6 / 10,
      amount = a,
      shares = Some (a / (6 / 10)),
      strategy = strat,
      entry_context = None,
      status = st,
      resolution_date = None,
      resolution_outcome = None,
      closing_price = None,
      pnl = None,
      roi = None,
      clv = None,
      was_good_trade = None\<rparr>"

text \<open>
  A resolved trade of 20 dollars, as a stored row: side, entry price, closing price, status
  and realised PnL are given.
\<close>

definition resolved_row ::
  "string \<Rightarrow> real \<Rightarrow> real option \<Rightarrow> string \<Rightarrow> real option \<Rightarrow> TradeDB" where
  "resolved_row sd ep cp st p =
     (insert_trade ''t1'' 20 ''polymarket'' ''test-strategy'' st 0)
       \<lparr>TradeDB.side := sd, TradeDB.entry_price := ep, TradeDB.shares := Some (20 / ep),
        TradeDB.closing_price := cp, TradeDB.pnl := p\<rparr>"

text \<open>The same trade as a \<open>Trade\<close>.\<close>

definition resolved_trade ::
  "TradeSide \<Rightarrow> real \<Rightarrow> real option \<Rightarrow> TradeStatus \<Rightarrow> real option \<Rightarrow> Trade" where
  "resolved_trade sd ep cp st p =
     \<lparr>Trade.id = ''t1'',
      created_at = 0,
      updated_at = 0,
      platform = ''polymarket'',
      market_id = ''1'',
      market_question = ''Will it rain tomorrow?'',
      market_category = Some ''weather'',
      market_end_date = None,
      side = sd,
      entry_price = ep,
      amount = 20,
      shares = Some (20 / ep),
      strategy = ''test-strategy'',
      entry_context = None,
      status = st,
      resolution_date = None,
      resolution_outcome = None,
      closing_price = cp,
      pnl = p,
      roi = None,
      clv = None,
      was_good_trade = None\<rparr>"

text \<open>
  Four resolved trades with realised PnL +10, +5, -20, +3 in the order of their resolution
  (the second has no resolution date and is placed by its creation date), listed out of
  order.
\<close>

definition pnl_trade :: "datetime option \<Rightarrow> datetime \<Rightarrow> real \<Rightarrow> Trade" where
  "pnl_trade rd created p =
     (resolved_trade YES (6 / 10) None (if p > 0 then RESOLVED_WIN else RESOLVED_LOSS) (Some p))
       \<lparr>Trade.resolution_date := rd, Trade.created_at := created\<rparr>"

definition drawdown_example :: "Trade list" where
  "drawdown_example =
     [pnl_trade (Some 3) 0 (- 20), pnl_trade (Some 1) 0 10,
      pnl_trade (Some 4) 0 3, pnl_trade None 2 5]"

text \<open>Three resolved trades of the strategy \<open>test-strategy\<close> with PnL -2, +1 and +4.\<close>

definition sharpe_example :: "Trade list" where
  "sharpe_example = [pnl_trade (Some 1) 0 (- 2), pnl_trade (Some 2) 0 1, pnl_trade (Some 3) 0 4]"

text \<open>
  The ledger of \<open>test_exposure_report_calculation\<close>: two open trades stored now and a
  resolved one stored a day earlier.
\<close>

definition exposure_example :: "datetime \<Rightarrow> TradeDB list" where
  "exposure_example now =
     [insert_trade ''a'' 100 ''polymarket'' ''strat-a'' (TradeStatus_value OPEN) now,
      insert_trade ''b'' 200 ''kalshi'' ''strat-b'' (TradeStatus_value OPEN) now,
      insert_trade ''c'' 50 ''polymarket'' ''old'' (TradeStatus_value RESOLVED_WIN)
        (now - microseconds_per_day)]"

text \<open>
  Settings with a per-trade cap of 50 and a total-exposure cap of 100, settings with both
  caps at 100, a clock, and the empty ledger.
\<close>

definition test_settings :: Settings where
  "test_settings =
     \<lparr>Settings.max_position_size = 50, max_total_exposure = 100, paper_trading = True\<rparr>"

definition capped_settings :: Settings where
  "capped_settings =
     \<lparr>Settings.max_position_size = 100, max_total_exposure = 100, paper_trading = True\<rparr>"

definition test_env :: "string \<Rightarrow> Env" where
  "test_env u = \<lparr>uuid4 = u, utcnow = 1000, today_start = 0\<rparr>"

definition empty_world :: World where
  "empty_world = \<lparr>db = [], trade_log = []\<rparr>"

text \<open>Two requests of 70 dollars each, in two markets, not forced.\<close>

definition two_requests :: "Request list" where
  "two_requests =
     [\<lparr>env = test_env ''u1'', opportunity = make_opportunity 70 ''yes'' make_market,
       force = False\<rparr>,
      \<lparr>env = test_env ''u2'',
       opportunity = make_opportunity 70 ''yes'' (make_market\<lparr>Market.market_id := ''2''\<rparr>),
       force = False\<rparr>]"

section \<open>Reference notions\<close>

text \<open>
  Notions in which the properties below are stated. They are not part of the program.
\<close>

text \<open>The open rows of a ledger.\<close>

definition open_rows :: "TradeDB list \<Rightarrow> TradeDB list" where
  "open_rows rows = filter (\<lambda>t. TradeDB.status t = ''open'') rows"

text \<open>The number of open positions in the market of an opportunity.\<close>

definition market_position_count :: "MarketOpportunity \<Rightarrow> TradeDB list \<Rightarrow> nat" where
  "market_position_count opp rows =
     length (filter (\<lambda>p. Position.platform p = Market.platform (market opp)
                         \<and> Position.market_id p = Market.market_id (market opp))
               (get_positions rows))"

text \<open>The price of the recommended side, as \<open>PaperTrader.execute_trade\<close> selects it.\<close>

definition side_price :: "MarketOpportunity \<Rightarrow> real option" where
  "side_price opp =
     (if recommended_side opp = ''yes'' then yes_price (market opp) else no_price (market opp))"

text \<open>Whether a request has ended with a recorded trade, and the error it reports.\<close>

fun task_succeeded :: "task \<Rightarrow> bool" where
  "task_succeeded (Finished (Inr r)) = success r"
| "task_succeeded _ = False"

fun task_error :: "task \<Rightarrow> fstring option" where
  "task_error (Finished (Inr r)) = error r"
| "task_error _ = None"

text \<open>What a run leaves: the amounts on the ledger and, per request, whether it succeeded.\<close>

definition outcome ::
  "(World \<times> task list) option \<Rightarrow> (real list \<times> bool list) option" where
  "outcome st =
     (case st of
        None \<Rightarrow> None
      | Some (w, ts) \<Rightarrow> Some (map TradeDB.amount (db w), map task_succeeded ts))"

text \<open>The total exposure on the ledger that a run leaves.\<close>

definition final_total_exposure ::
  "Settings \<Rightarrow> (World \<times> task list) option \<Rightarrow> real option" where
  "final_total_exposure settings st =
     map_option (\<lambda>s. total_exposure (get_exposure settings 0 (db (fst s)))) st"

text \<open>
  The cumulative PnL after the first \<open>k\<close> trades of a sequence, its running peak (the
  largest cumulative PnL so far, the empty prefix with PnL 0 included), and the largest gap
  between the running peak and the cumulative PnL.
\<close>

definition cumulative :: "real list \<Rightarrow> nat \<Rightarrow> real" where
  "cumulative ps k = sum_list (take k ps)"

definition running_peak :: "real list \<Rightarrow> nat \<Rightarrow> real" where
  "running_peak ps k = Max (cumulative ps ` {0..k})"

definition largest_gap :: "real list \<Rightarrow> real" where
  "largest_gap ps = Max ((\<lambda>k. running_peak ps k - cumulative ps k) ` {0..length ps})"

text \<open>
  The trades of a strategy inside the evaluation window, as \<open>evaluate_strategy\<close> selects
  them; the resolved ones among a list of trades; the PnL of each trade of a list; the mean
  and the sample standard deviation of a list of numbers.
\<close>

definition strategy_window ::
  "Trade list \<Rightarrow> datetime \<Rightarrow> string \<Rightarrow> string \<Rightarrow> datetime option \<Rightarrow> datetime option
     \<Rightarrow> Trade list" where
  "strategy_window self_trades now strategy_name p start_opt end_opt =
     (let e = (case end_opt of None \<Rightarrow> now | Some d \<Rightarrow> d);
          s = (case start_opt of None \<Rightarrow> get_period_start p e | Some d \<Rightarrow> d)
      in filter (\<lambda>t. Trade.strategy t = strategy_name
                     \<and> Trade.created_at t \<ge> s \<and> Trade.created_at t \<le> e) self_trades)"

definition resolved_of :: "Trade list \<Rightarrow> Trade list" where
  "resolved_of ts = filter (\<lambda>t. Trade.status t \<in> {RESOLVED_WIN, RESOLVED_LOSS}) ts"

definition pnls_of :: "Trade list \<Rightarrow> real list" where
  "pnls_of ts = map (\<lambda>t. or_float (Trade.pnl t) 0) ts"

definition mean_of :: "real list \<Rightarrow> real" where
  "mean_of xs = sum_list xs / real (length xs)"

definition stdev_of :: "real list \<Rightarrow> real" where
  "stdev_of xs = sqrt (sum_list (map (\<lambda>x. (x - mean_of xs)\<^sup>2) xs) / real (length xs - 1))"

section \<open>Properties of the risk manager\<close>

lemma check_limits_tag:
  "limit_tag (check_limits self opp ex ps) =
     (if recommended_amount opp > RiskManager.max_position_size self
        then Some (JStr ''max_position_size'')
      else if total_exposure ex + recommended_amount opp > RiskManager.max_total_exposure self
        then Some (JStr ''max_total_exposure'')
      else if daily_traded ex + recommended_amount opp > max_daily_volume self
        then Some (JStr ''daily_volume'')
      else if int (length (filter (\<lambda>p. Position.platform p = Market.platform (market opp)
                       \<and> Position.market_id p = Market.market_id (market opp)) ps))
                \<ge> max_positions_per_market self
        then Some (JStr ''positions_per_market'')
      else None)"
  by (simp add: check_limits_def limit_tag_def Let_def)

lemma check_limits_allowed:
  "allowed (check_limits self opp ex ps) \<longleftrightarrow> limit_tag (check_limits self opp ex ps) = None"
  by (simp add: check_limits_def limit_tag_def Let_def)

text \<open>
  Claim C1. \<open>check_limits\<close> tests the four limits in the order \<open>max_position_size\<close>,
  \<open>max_total_exposure\<close>, \<open>daily_volume\<close>, \<open>positions_per_market\<close> and reports the first
  one that fails: the tag under \<open>"limit"\<close> is that of the first failing test, and the trade
  is allowed exactly when there is no tag. In particular an amount above both the
  per-trade cap and the remaining total-exposure headroom is refused with
  \<open>max_position_size\<close>.
\<close>

theorem check_limits_order:
  "limit_tag (check_limits self opp ex ps) =
     (if recommended_amount opp > RiskManager.max_position_size self
        then Some (JStr ''max_position_size'')
      else if total_exposure ex + recommended_amount opp > RiskManager.max_total_exposure self
        then Some (JStr ''max_total_exposure'')
      else if daily_traded ex + recommended_amount opp > max_daily_volume self
        then Some (JStr ''daily_volume'')
      else if int (length (filter (\<lambda>p. Position.platform p = Market.platform (market opp)
                       \<and> Position.market_id p = Market.market_id (market opp)) ps))
                \<ge> max_positions_per_market self
        then Some (JStr ''positions_per_market'')
      else None)
   \<and> (allowed (check_limits self opp ex ps) \<longleftrightarrow> limit_tag (check_limits self opp ex ps) = None)
   \<and> (recommended_amount opp > RiskManager.max_position_size self
        \<and> recommended_amount opp > RiskManager.max_total_exposure self - total_exposure ex
      \<longrightarrow> limit_tag (check_limits self opp ex ps) = Some (JStr ''max_position_size'')
          \<and> \<not> allowed (check_limits self opp ex ps))"
  by (simp add: check_limits_def limit_tag_def Let_def)

theorem check_limits_order_witness:
  "recommended_amount (make_opportunity 60 ''yes'' make_market)
      > RiskManager.max_position_size test_risk_manager
   \<and> recommended_amount (make_opportunity 60 ''yes'' make_market)
      > RiskManager.max_total_exposure test_risk_manager
          - total_exposure (make_exposure default_settings 70 0)
   \<and> limit_tag (check_limits test_risk_manager (make_opportunity 60 ''yes'' make_market)
        (make_exposure default_settings 70 0) []) = Some (JStr ''max_position_size'')"
  using check_limits_order [of test_risk_manager "make_opportunity 60 ''yes'' make_market"
      "make_exposure default_settings 70 0" "[]"]
  by (simp add: make_opportunity_def test_risk_manager_def RiskManager_init_def
      make_exposure_def or_float_def Let_def default_settings_def make_market_def)

text \<open>
  Claim C10. A risk manager built with \<open>max_daily_volume = 0\<close> has no zero daily cap: the
  zero is falsy, so the limit becomes twice \<open>max_total_exposure\<close> and the manager decides
  every request as one built without the argument does. The allowed scenario of the test
  module (amount 20, exposure 30, 10 traded today) passes it, and is refused with
  \<open>daily_volume\<close> once the limit is literally zero.
\<close>

theorem RiskManager_zero_daily_volume:
  "max_daily_volume (RiskManager_init mps mte (Some 0) n) = mte * 2
   \<and> check_limits (RiskManager_init mps mte (Some 0) n) opp ex ps
       = check_limits (RiskManager_init mps mte None n) opp ex ps
   \<and> allowed (check_limits (RiskManager_init 50 100 (Some 0) 1)
        (make_opportunity 20 ''yes'' make_market) (make_exposure default_settings 30 10) [])
   \<and> limit_tag (check_limits ((RiskManager_init 50 100 (Some 0) 1)\<lparr>max_daily_volume := 0\<rparr>)
        (make_opportunity 20 ''yes'' make_market) (make_exposure default_settings 30 10) [])
       = Some (JStr ''daily_volume'')"
  by (simp add: RiskManager_init_def or_float_def check_limits_allowed check_limits_tag
      make_opportunity_def make_exposure_def Let_def)

section \<open>Closing line value\<close>

lemma round2_hundredth: "\<exists>k::int. round2 x = of_int k / 100"
proof -
  define f where "f = \<lfloor>x * 100\<rfloor>"
  define d where "d = x * 100 - of_int f"
  define k where
    "k = (if d < 1 / 2 then f else if d > 1 / 2 then f + 1 else if even f then f else f + 1)"
  have "round2 x = of_int k / 100"
    unfolding round2_def Let_def f_def[symmetric] d_def[symmetric] k_def by simp
  then show ?thesis ..
qed

lemma round2_near: "\<bar>round2 x - x\<bar> \<le> 1 / 200"
proof -
  define y where "y = x * 100"
  define f where "f = \<lfloor>y\<rfloor>"
  have f1: "of_int f \<le> y" and f2: "y < of_int f + 1" unfolding f_def by linarith+
  have "\<bar>round2 x * 100 - y\<bar> \<le> 1 / 2"
    unfolding round2_def Let_def y_def[symmetric] f_def[symmetric]
    using f1 f2 by (auto split: if_splits)
  then show ?thesis unfolding y_def by linarith
qed

lemma db_to_trade_resolved_row:
  "db_to_trade (resolved_row ''yes'' (4/10) (Some (6/10)) ''resolved_win'' None)
     = Inr (resolved_trade YES (4/10) (Some (6/10)) RESOLVED_WIN None)"
  by (simp add: db_to_trade_def resolved_row_def resolved_trade_def insert_trade_def
      TradeSide_of_def TradeStatus_of_def Trade_valid_def Let_def)

text \<open>
  Claim C3. The analyzer's CLV is \<open>None\<close> when the trade has no closing price. Otherwise
  (on a \<open>Trade\<close>, whose entry price lies between 0.01 and 0.99) it is
  \<open>((closing - entry) / entry) * 100\<close> for a YES trade and
  \<open>(((1 - entry) - closing) / (1 - entry)) * 100\<close> for a NO trade, rounded to two decimals:
  the rounded value is a whole number of hundredths at most half a hundredth away. A YES
  trade entered at 0.40 and closing at 0.60 has CLV 50.0; a NO trade entered at 0.40 with
  closing YES price 0.50 has CLV 16.67.
\<close>

theorem calculate_clv_formula:
  "(Trade.closing_price t = None \<longrightarrow> ResolutionAnalyzer_calculate_clv t = Inr None)
   \<and> (Trade.closing_price t = Some cp \<and> Trade_valid t \<longrightarrow>
        ResolutionAnalyzer_calculate_clv t =
          Inr (Some (round2 (case Trade.side t of
                 YES \<Rightarrow> ((cp - Trade.entry_price t) / Trade.entry_price t) * 100
               | NO \<Rightarrow> (((1 - Trade.entry_price t) - cp) / (1 - Trade.entry_price t)) * 100))))
   \<and> (\<exists>k::int. round2 x = of_int k / 100) \<and> \<bar>round2 x - x\<bar> \<le> 1 / 200
   \<and> ResolutionAnalyzer_calculate_clv
         (resolved_trade YES (40 / 100) (Some (60 / 100)) RESOLVED_WIN None) = Inr (Some 50)
   \<and> ResolutionAnalyzer_calculate_clv
         (resolved_trade NO (40 / 100) (Some (50 / 100)) RESOLVED_WIN None)
       = Inr (Some (1667 / 100))"
proof (intro conjI impI)
  show "Trade.closing_price t = None \<Longrightarrow> ResolutionAnalyzer_calculate_clv t = Inr None"
    by (simp add: ResolutionAnalyzer_calculate_clv_def)
  show "ResolutionAnalyzer_calculate_clv t =
          Inr (Some (round2 (case Trade.side t of
                 YES \<Rightarrow> ((cp - Trade.entry_price t) / Trade.entry_price t) * 100
               | NO \<Rightarrow> (((1 - Trade.entry_price t) - cp) / (1 - Trade.entry_price t)) * 100)))"
    if "Trade.closing_price t = Some cp \<and> Trade_valid t"
    using that
    by (cases "Trade.side t")
       (auto simp: ResolutionAnalyzer_calculate_clv_def Trade_valid_def py_div_def
          bind_exn_def Let_def)
  show "\<exists>k::int. round2 x = of_int k / 100" by (rule round2_hundredth)
  show "\<bar>round2 x - x\<bar> \<le> 1 / 200" by (rule round2_near)
  show "ResolutionAnalyzer_calculate_clv
         (resolved_trade YES (40 / 100) (Some (60 / 100)) RESOLVED_WIN None) = Inr (Some 50)"
    by (simp add: ResolutionAnalyzer_calculate_clv_def resolved_trade_def py_div_def
        bind_exn_def round2_def Let_def)
  show "ResolutionAnalyzer_calculate_clv
         (resolved_trade NO (40 / 100) (Some (50 / 100)) RESOLVED_WIN None)
       = Inr (Some (1667 / 100))"
    by (simp add: ResolutionAnalyzer_calculate_clv_def resolved_trade_def py_div_def
        bind_exn_def round2_def Let_def)
qed

theorem calculate_clv_formula_witness:
  "Trade.closing_price (resolved_trade NO (40 / 100) (Some (50 / 100)) RESOLVED_WIN None)
     = Some (50 / 100)
   \<and> Trade_valid (resolved_trade NO (40 / 100) (Some (50 / 100)) RESOLVED_WIN None)
   \<and> Trade.closing_price (resolved_trade NO (40 / 100) None RESOLVED_WIN None) = None
   \<and> ResolutionAnalyzer_calculate_clv (resolved_trade NO (40 / 100) None RESOLVED_WIN None)
       = Inr None
   \<and> ResolutionAnalyzer_calculate_clv
        (resolved_trade NO (40 / 100) (Some (50 / 100)) RESOLVED_WIN None)
       = Inr (Some (round2 ((((1 - 40 / 100) - 50 / 100) / (1 - 40 / 100)) * 100)))"
  using calculate_clv_formula [of "resolved_trade NO (40 / 100) None RESOLVED_WIN None"]
    calculate_clv_formula [of "resolved_trade NO (40 / 100) (Some (50 / 100)) RESOLVED_WIN None"
      "50 / 100"]
  by (simp add: resolved_trade_def Trade_valid_def)

text \<open>
  Claim C4. The resolution script and the analyzer do not compute the same CLV. On the
  stored YES trade entered at 0.40 with closing price 0.60, the script's \<open>calculate_clv\<close>
  returns the raw difference 0.20, and the analyzer, on the same row converted by
  \<open>_db_to_trade\<close>, returns the percentage 50.0.
\<close>

theorem clv_formulas_diverge:
  "db_to_trade (resolved_row ''yes'' (4/10) (Some (6/10)) ''resolved_win'' None)
     = Inr (resolved_trade YES (4/10) (Some (6/10)) RESOLVED_WIN None)
   \<and> calculate_clv (resolved_row ''yes'' (4/10) (Some (6/10)) ''resolved_win'' None) (6/10)
       = (2 / 10, True)
   \<and> ResolutionAnalyzer_calculate_clv (resolved_trade YES (4/10) (Some (6/10)) RESOLVED_WIN None)
       = Inr (Some 50)"
proof (intro conjI)
  show "db_to_trade (resolved_row ''yes'' (4/10) (Some (6/10)) ''resolved_win'' None)
     = Inr (resolved_trade YES (4/10) (Some (6/10)) RESOLVED_WIN None)"
    by (rule db_to_trade_resolved_row)
  show "calculate_clv (resolved_row ''yes'' (4/10) (Some (6/10)) ''resolved_win'' None) (6/10)
       = (2 / 10, True)"
    by (simp add: calculate_clv_def resolved_row_def insert_trade_def Let_def)
  show "ResolutionAnalyzer_calculate_clv
          (resolved_trade YES (4/10) (Some (6/10)) RESOLVED_WIN None) = Inr (Some 50)"
    by (simp add: ResolutionAnalyzer_calculate_clv_def resolved_trade_def py_div_def
        bind_exn_def round2_def Let_def)
qed

section \<open>Maximum drawdown\<close>

lemma cumulative_snoc_le: "k \<le> length ps \<Longrightarrow> cumulative (ps @ [p]) k = cumulative ps k"
  by (simp add: cumulative_def)

lemma cumulative_snoc_Suc: "cumulative (ps @ [p]) (Suc (length ps)) = cumulative ps (length ps) + p"
  by (simp add: cumulative_def)

lemma running_peak_snoc_le:
  "k \<le> length ps \<Longrightarrow> running_peak (ps @ [p]) k = running_peak ps k"
proof -
  assume k: "k \<le> length ps"
  have "cumulative (ps @ [p]) ` {0..k} = cumulative ps ` {0..k}"
    by (rule image_cong) (use k in \<open>auto simp: cumulative_snoc_le\<close>)
  then show ?thesis by (simp add: running_peak_def)
qed

lemma running_peak_Suc:
  "running_peak ps (Suc k) = max (cumulative ps (Suc k)) (running_peak ps k)"
  by (simp add: running_peak_def atLeastAtMostSuc_conv)

lemma largest_gap_snoc:
  "largest_gap (ps @ [p]) =
     max (running_peak (ps @ [p]) (Suc (length ps)) - cumulative (ps @ [p]) (Suc (length ps)))
         (largest_gap ps)"
proof -
  have "(\<lambda>k. running_peak (ps @ [p]) k - cumulative (ps @ [p]) k) ` {0..length ps}
          = (\<lambda>k. running_peak ps k - cumulative ps k) ` {0..length ps}"
    by (rule image_cong) (auto simp: cumulative_snoc_le running_peak_snoc_le)
  then show ?thesis
    by (simp add: largest_gap_def atLeastAtMostSuc_conv)
qed

lemma drawdown_loop:
  "fold drawdown_step ts (0, 0, 0) =
     (let ps = map (\<lambda>t. or_float (Trade.pnl t) 0) ts in
      (cumulative ps (length ps), running_peak ps (length ps), largest_gap ps))"
proof (induction ts rule: rev_induct)
  case Nil
  show ?case by (simp add: cumulative_def running_peak_def largest_gap_def)
next
  case (snoc t ts)
  define ps where "ps = map (\<lambda>t. or_float (Trade.pnl t) 0) ts"
  define p where "p = or_float (Trade.pnl t) 0"
  have IH: "fold drawdown_step ts (0, 0, 0) =
      (cumulative ps (length ps), running_peak ps (length ps), largest_gap ps)"
    using snoc.IH by (simp add: ps_def Let_def)
  have len: "length ts = length ps" by (simp add: ps_def)
  have pk: "running_peak (ps @ [p]) (Suc (length ps))
      = max (cumulative ps (length ps) + p) (running_peak ps (length ps))"
    by (simp add: running_peak_Suc cumulative_snoc_Suc running_peak_snoc_le)
  have "fold drawdown_step (ts @ [t]) (0, 0, 0)
      = drawdown_step t (cumulative ps (length ps), running_peak ps (length ps), largest_gap ps)"
    by (simp add: IH)
  also have "\<dots> = (cumulative (ps @ [p]) (Suc (length ps)),
                    running_peak (ps @ [p]) (Suc (length ps)), largest_gap (ps @ [p]))"
    unfolding largest_gap_snoc pk cumulative_snoc_Suc
    by (simp add: drawdown_step_def Let_def p_def max_def)
  finally show ?case
    by (simp add: Let_def ps_def p_def)
qed

lemma largest_gap_nonneg: "0 \<le> largest_gap ps"
proof -
  have "running_peak ps 0 - cumulative ps 0 \<le> largest_gap ps"
    unfolding largest_gap_def by (rule Max_ge) auto
  then show ?thesis by (simp add: running_peak_def cumulative_def)
qed

lemma drawdown_example_sorted:
  "map (\<lambda>t. or_float (Trade.pnl t) 0) (sort_key resolution_key drawdown_example)
     = [10, 5, - 20, 3]"
  by (simp add: drawdown_example_def pnl_trade_def resolved_trade_def resolution_key_def
      or_float_def)

lemma drawdown_example_value: "calculate_max_drawdown drawdown_example = 20"
  by (simp add: calculate_max_drawdown_def drawdown_example_def pnl_trade_def
      resolved_trade_def resolution_key_def or_float_def drawdown_step_def Let_def)

text \<open>
  Claim C2, as stated, fails: on the PnL sequence +10, +5, -20, +3 the cumulative PnL is
  10, 15, -5, -2, the peak is 15 and the computation returns 20, not 35.
\<close>

theorem max_drawdown_example_not_35:
  "map (\<lambda>t. or_float (Trade.pnl t) 0) (sort_key resolution_key drawdown_example)
     = [10, 5, - 20, 3]
   \<and> calculate_max_drawdown drawdown_example \<noteq> 35"
  by (simp add: drawdown_example_sorted drawdown_example_value)

text \<open>
  Claim C2, amended. The computation orders the trades by resolution date (creation date
  when there is none), keeping the order of trades with equal dates, and returns the
  largest gap between the running peak of the cumulative PnL (the peak starts at 0) and
  the cumulative PnL; the result is never negative. On the sequence +10, +5, -20, +3 it
  returns 20.
\<close>

theorem max_drawdown_largest_gap:
  "calculate_max_drawdown ts
     = largest_gap (map (\<lambda>t. or_float (Trade.pnl t) 0) (sort_key resolution_key ts))
   \<and> sorted (map resolution_key (sort_key resolution_key ts))
   \<and> mset (sort_key resolution_key ts) = mset ts
   \<and> filter (\<lambda>t. resolution_key t = k) (sort_key resolution_key ts)
       = filter (\<lambda>t. resolution_key t = k) ts
   \<and> 0 \<le> calculate_max_drawdown ts
   \<and> map (\<lambda>t. or_float (Trade.pnl t) 0) (sort_key resolution_key drawdown_example)
       = [10, 5, - 20, 3]
   \<and> calculate_max_drawdown drawdown_example = 20"
proof -
  have eq: "calculate_max_drawdown ts
     = largest_gap (map (\<lambda>t. or_float (Trade.pnl t) 0) (sort_key resolution_key ts))"
  proof (cases "ts = []")
    case True
    then show ?thesis
      by (simp add: calculate_max_drawdown_def largest_gap_def running_peak_def cumulative_def)
  next
    case False
    then show ?thesis
      by (simp add: calculate_max_drawdown_def drawdown_loop Let_def)
  qed
  moreover have "0 \<le> calculate_max_drawdown ts"
    unfolding eq by (rule largest_gap_nonneg)
  ultimately show ?thesis
    by (simp add: drawdown_example_sorted drawdown_example_value sort_key_stable)
qed

section \<open>Exposure\<close>

lemma dict_add_apply:
  "dict_add d a v k = (if k = a then Some ((case d a of None \<Rightarrow> 0 | Some x \<Rightarrow> x) + v) else d k)"
  by (simp add: dict_add_def)

lemma filter_key_absent: "k \<notin> key ` set ps \<Longrightarrow> filter (\<lambda>p. key p = k) ps = []"
  by (induction ps) auto

lemma fold_dict_add:
  "fold (\<lambda>p d. dict_add d (key p) (val p)) ps d0 k =
     (if k \<in> key ` set ps
      then Some ((case d0 k of None \<Rightarrow> 0 | Some x \<Rightarrow> x)
                 + sum_list (map val (filter (\<lambda>p. key p = k) ps)))
      else d0 k)"
proof (induction ps arbitrary: d0)
  case Nil
  show ?case by simp
next
  case (Cons p ps)
  define d1 where "d1 = dict_add d0 (key p) (val p)"
  have "fold (\<lambda>p d. dict_add d (key p) (val p)) (p # ps) d0 k
      = fold (\<lambda>p d. dict_add d (key p) (val p)) ps d1 k"
    by (simp add: d1_def)
  also have "\<dots> =
     (if k \<in> key ` set ps
      then Some ((case d1 k of None \<Rightarrow> 0 | Some x \<Rightarrow> x)
                 + sum_list (map val (filter (\<lambda>p. key p = k) ps)))
      else d1 k)"
    by (rule Cons.IH)
  also have "\<dots> =
     (if k \<in> key ` set (p # ps)
      then Some ((case d0 k of None \<Rightarrow> 0 | Some x \<Rightarrow> x)
                 + sum_list (map val (filter (\<lambda>p. key p = k) (p # ps))))
      else d0 k)"
    by (auto simp add: d1_def dict_add_apply filter_key_absent split: option.split)
  finally show ?case .
qed

lemma fold_pair_split:
  "fold (\<lambda>p (a, b). (f p a, g p b)) ps (a0, b0) = (fold f ps a0, fold g ps b0)"
  by (induction ps arbitrary: a0 b0) simp_all

lemma group_exposure_eq:
  "group_exposure ps =
     (fold (\<lambda>p d. dict_add d (Position.platform p) (Position.amount p)) ps Map.empty,
      fold (\<lambda>p d. dict_add d (Position.strategy p) (Position.amount p)) ps Map.empty)"
  unfolding group_exposure_def by (rule fold_pair_split)

lemma get_positions_open_rows: "get_positions rows = map to_position (open_rows rows)"
  by (simp add: get_positions_def open_rows_def)

lemma to_position_fields:
  "Position.amount (to_position r) = TradeDB.amount r"
  "Position.platform (to_position r) = TradeDB.platform r"
  "Position.strategy (to_position r) = TradeDB.strategy r"
  "Position.market_id (to_position r) = TradeDB.market_id r"
  by (simp_all add: to_position_def)

lemma total_exposure_open_rows:
  "total_exposure (get_exposure settings ts rows) = sum_list (map TradeDB.amount (open_rows rows))"
  by (simp add: get_exposure_def Let_def get_positions_open_rows comp_def to_position_fields
      split: prod.split)

lemma by_platform_open_rows:
  "ExposureReport.by_platform (get_exposure settings ts rows) k =
     (if k \<in> TradeDB.platform ` set (open_rows rows)
      then Some (sum_list (map TradeDB.amount
                   (filter (\<lambda>t. TradeDB.platform t = k) (open_rows rows))))
      else None)"
proof -
  have "ExposureReport.by_platform (get_exposure settings ts rows) k =
      fold (\<lambda>p d. dict_add d (Position.platform p) (Position.amount p))
        (get_positions rows) Map.empty k"
    by (simp add: get_exposure_def Let_def group_exposure_eq)
  also have "\<dots> =
     (if k \<in> Position.platform ` set (get_positions rows)
      then Some (sum_list (map Position.amount
                   (filter (\<lambda>p. Position.platform p = k) (get_positions rows))))
      else None)"
    by (simp add: fold_dict_add)
  also have "\<dots> =
     (if k \<in> TradeDB.platform ` set (open_rows rows)
      then Some (sum_list (map TradeDB.amount
                   (filter (\<lambda>t. TradeDB.platform t = k) (open_rows rows))))
      else None)"
    by (simp add: get_positions_open_rows filter_map comp_def to_position_fields image_image)
  finally show ?thesis .
qed

lemma by_strategy_open_rows:
  "by_strategy (get_exposure settings ts rows) k =
     (if k \<in> TradeDB.strategy ` set (open_rows rows)
      then Some (sum_list (map TradeDB.amount
                   (filter (\<lambda>t. TradeDB.strategy t = k) (open_rows rows))))
      else None)"
proof -
  have "by_strategy (get_exposure settings ts rows) k =
      fold (\<lambda>p d. dict_add d (Position.strategy p) (Position.amount p))
        (get_positions rows) Map.empty k"
    by (simp add: get_exposure_def Let_def group_exposure_eq)
  also have "\<dots> =
     (if k \<in> Position.strategy ` set (get_positions rows)
      then Some (sum_list (map Position.amount
                   (filter (\<lambda>p. Position.strategy p = k) (get_positions rows))))
      else None)"
    by (simp add: fold_dict_add)
  also have "\<dots> =
     (if k \<in> TradeDB.strategy ` set (open_rows rows)
      then Some (sum_list (map TradeDB.amount
                   (filter (\<lambda>t. TradeDB.strategy t = k) (open_rows rows))))
      else None)"
    by (simp add: get_positions_open_rows filter_map comp_def to_position_fields image_image)
  finally show ?thesis .
qed

lemma exposure_example_report:
  "total_exposure (get_exposure settings now (exposure_example now)) = 300"
  "position_count (get_exposure settings now (exposure_example now)) = 2"
  "ExposureReport.by_platform (get_exposure settings now (exposure_example now))
     = [''polymarket'' \<mapsto> 100, ''kalshi'' \<mapsto> 200]"
  "by_strategy (get_exposure settings now (exposure_example now))
     = [''strat-a'' \<mapsto> 100, ''strat-b'' \<mapsto> 200]"
  "daily_traded (get_exposure settings now (exposure_example now)) = 300"
  by (simp_all add: get_exposure_def Let_def get_positions_def exposure_example_def
      insert_trade_def to_position_def group_exposure_def dict_add_def
      microseconds_per_day_def)

text \<open>
  Claim C6. For every ledger, \<open>get_exposure\<close> reports as \<open>total_exposure\<close> the sum of the
  amounts of the open trades and as \<open>position_count\<close> their number; \<open>by_platform\<close> and
  \<open>by_strategy\<close> have a key for each platform (strategy) of an open trade, holding the sum
  of the amounts of the open trades with that key; \<open>daily_traded\<close> is the sum of the
  amounts of all trades, of any status, created at or after the start of the day. On the
  ledger of the test module (open trades of 100 and 200 created today, a resolved trade of
  50 created a day earlier) the report has total exposure 300, two positions, the
  groupings 100 and 200, and 300 traded today, the 50 left out.
\<close>

theorem get_exposure_report:
  "total_exposure (get_exposure settings ts rows)
     = sum_list (map TradeDB.amount (open_rows rows))
   \<and> position_count (get_exposure settings ts rows) = length (open_rows rows)
   \<and> ExposureReport.by_platform (get_exposure settings ts rows) k =
       (if k \<in> TradeDB.platform ` set (open_rows rows)
        then Some (sum_list (map TradeDB.amount
                     (filter (\<lambda>t. TradeDB.platform t = k) (open_rows rows))))
        else None)
   \<and> by_strategy (get_exposure settings ts rows) k =
       (if k \<in> TradeDB.strategy ` set (open_rows rows)
        then Some (sum_list (map TradeDB.amount
                     (filter (\<lambda>t. TradeDB.strategy t = k) (open_rows rows))))
        else None)
   \<and> daily_traded (get_exposure settings ts rows)
       = sum_list (map TradeDB.amount (filter (\<lambda>t. ts \<le> TradeDB.created_at t) rows))
   \<and> total_exposure (get_exposure settings now (exposure_example now)) = 300
   \<and> position_count (get_exposure settings now (exposure_example now)) = 2
   \<and> ExposureReport.by_platform (get_exposure settings now (exposure_example now))
       = [''polymarket'' \<mapsto> 100, ''kalshi'' \<mapsto> 200]
   \<and> by_strategy (get_exposure settings now (exposure_example now))
       = [''strat-a'' \<mapsto> 100, ''strat-b'' \<mapsto> 200]
   \<and> daily_traded (get_exposure settings now (exposure_example now)) = 300"
proof -
  have "position_count (get_exposure settings ts rows) = length (open_rows rows)"
    by (simp add: get_exposure_def Let_def get_positions_open_rows split: prod.split)
  moreover have "daily_traded (get_exposure settings ts rows)
       = sum_list (map TradeDB.amount (filter (\<lambda>t. ts \<le> TradeDB.created_at t) rows))"
    by (simp add: get_exposure_def Let_def split: prod.split)
  ultimately show ?thesis
    using total_exposure_open_rows [of settings ts rows]
      by_platform_open_rows [of settings ts rows k]
      by_strategy_open_rows [of settings ts rows k]
      exposure_example_report [of settings now]
    by (simp only: simp_thms)
qed

section \<open>Failed executions\<close>

lemma PaperTrader_invalid_price:
  "side_price opp = None \<or> (\<exists>p. side_price opp = Some p \<and> p \<le> 0) \<Longrightarrow>
   \<exists>msg. PaperTrader_execute_trade e opp w =
     (Inr \<lparr>success = False, trade = None, error = Some (Lit ''Invalid entry price: '' # msg),
           paper_trade = True\<rparr>, w)"
  by (auto simp: PaperTrader_execute_trade_def side_price_def Let_def)

lemma execute_opportunity_denied:
  "\<not> f \<Longrightarrow> \<not> allowed (check_risk_limits settings self e opp w) \<Longrightarrow>
   execute_opportunity settings self e opp f w =
     (Inr \<lparr>success = False, trade = None,
           error = Some (reason (check_risk_limits settings self e opp w)),
           paper_trade = TradingEngine.paper_trading self\<rparr>, w)"
  by (simp add: execute_opportunity_def admit_and_execute_def check_risk_limits_def Let_def)

lemma execute_opportunity_cases:
  "execute_opportunity settings self e opp f w =
     (if \<not> f \<and> \<not> allowed (check_risk_limits settings self e opp w) then
        (Inr \<lparr>success = False, trade = None,
              error = Some (reason (check_risk_limits settings self e opp w)),
              paper_trade = TradingEngine.paper_trading self\<rparr>, w)
      else execute_trade (trader self) e opp w)"
  by (simp add: execute_opportunity_def admit_and_execute_def check_risk_limits_def Let_def)

lemma test_engine_denies_60:
  "check_limits (risk_manager (TradingEngine_init test_settings True))
     (make_opportunity 60 ''yes'' make_market) ex ps =
     \<lparr>allowed = False,
      reason = [Lit ''Trade amount $'', Fmt 60 ''.2f'',
                Lit '' exceeds max position size $'', Fmt 50 ''.2f''],
      details = [(''limit'', JStr ''max_position_size''), (''requested'', JNum 60),
                 (''max'', JNum 50)]\<rparr>"
  by (simp add: TradingEngine_init_def RiskManager_default_def RiskManager_init_def
      test_settings_def make_opportunity_def check_limits_def or_float_def Let_def)

text \<open>
  Claim C5. A failed execution attempt leaves the ledger as it was. When
  \<open>execute_opportunity\<close>, not forced, is refused by the risk check, it returns a failure
  whose error is the reason of the check, and writes nothing. When the price of the
  recommended side is missing or not positive, the paper executor returns a failure with
  the error "Invalid entry price" and writes nothing, and so does the engine that runs it.
  An opportunity of 60 dollars against a per-trade cap of 50 is refused with the reason of
  \<open>max_position_size\<close>, on every ledger.
\<close>

theorem failed_execution_writes_nothing:
  "(\<not> f \<and> \<not> allowed (check_risk_limits settings self e opp w) \<longrightarrow>
      execute_opportunity settings self e opp f w =
        (Inr \<lparr>success = False, trade = None,
              error = Some (reason (check_risk_limits settings self e opp w)),
              paper_trade = TradingEngine.paper_trading self\<rparr>, w))
   \<and> (side_price opp = None \<or> (\<exists>p. side_price opp = Some p \<and> p \<le> 0) \<longrightarrow>
        (\<exists>msg. PaperTrader_execute_trade e opp w =
           (Inr \<lparr>success = False, trade = None,
                 error = Some (Lit ''Invalid entry price: '' # msg), paper_trade = True\<rparr>, w))
        \<and> (trader self = PaperTrader \<longrightarrow>
             (\<exists>r. execute_opportunity settings self e opp f w = (Inr r, w)
                  \<and> \<not> success r \<and> trade r = None \<and> error r \<noteq> None)))
   \<and> limit_tag (check_risk_limits test_settings (TradingEngine_init test_settings True) e
         (make_opportunity 60 ''yes'' make_market) w) = Some (JStr ''max_position_size'')
   \<and> execute_opportunity test_settings (TradingEngine_init test_settings True) e
         (make_opportunity 60 ''yes'' make_market) False w =
        (Inr \<lparr>success = False, trade = None,
              error = Some [Lit ''Trade amount $'', Fmt 60 ''.2f'',
                            Lit '' exceeds max position size $'', Fmt 50 ''.2f''],
              paper_trade = True\<rparr>, w)"
proof (intro conjI impI)
  show "execute_opportunity settings self e opp f w =
        (Inr \<lparr>success = False, trade = None,
              error = Some (reason (check_risk_limits settings self e opp w)),
              paper_trade = TradingEngine.paper_trading self\<rparr>, w)"
    if "\<not> f \<and> \<not> allowed (check_risk_limits settings self e opp w)"
    using that by (simp add: execute_opportunity_denied)
next
  assume bad: "side_price opp = None \<or> (\<exists>p. side_price opp = Some p \<and> p \<le> 0)"
  from PaperTrader_invalid_price [OF bad, of e w]
  obtain msg where msg: "PaperTrader_execute_trade e opp w =
     (Inr \<lparr>success = False, trade = None, error = Some (Lit ''Invalid entry price: '' # msg),
           paper_trade = True\<rparr>, w)" by blast
  then show "\<exists>msg. PaperTrader_execute_trade e opp w =
           (Inr \<lparr>success = False, trade = None,
                 error = Some (Lit ''Invalid entry price: '' # msg), paper_trade = True\<rparr>, w)"
    by blast
  show "\<exists>r. execute_opportunity settings self e opp f w = (Inr r, w)
                  \<and> \<not> success r \<and> trade r = None \<and> error r \<noteq> None"
    if "trader self = PaperTrader"
    using that msg by (simp add: execute_opportunity_cases)
next
  show "limit_tag (check_risk_limits test_settings (TradingEngine_init test_settings True) e
         (make_opportunity 60 ''yes'' make_market) w) = Some (JStr ''max_position_size'')"
    by (simp add: check_risk_limits_def Let_def test_engine_denies_60 limit_tag_def)
  show "execute_opportunity test_settings (TradingEngine_init test_settings True) e
         (make_opportunity 60 ''yes'' make_market) False w =
        (Inr \<lparr>success = False, trade = None,
              error = Some [Lit ''Trade amount $'', Fmt 60 ''.2f'',
                            Lit '' exceeds max position size $'', Fmt 50 ''.2f''],
              paper_trade = True\<rparr>, w)"
    by (simp add: execute_opportunity_def admit_and_execute_def Let_def test_engine_denies_60)
       (simp add: TradingEngine_init_def)
qed

theorem failed_execution_writes_nothing_witness:
  "\<not> allowed (check_risk_limits test_settings (TradingEngine_init test_settings True)
        (test_env ''u1'') (make_opportunity 60 ''no'' (make_market\<lparr>no_price := None\<rparr>))
        empty_world)
   \<and> side_price (make_opportunity 60 ''no'' (make_market\<lparr>no_price := None\<rparr>)) = None
   \<and> trader (TradingEngine_init test_settings True) = PaperTrader
   \<and> snd (execute_opportunity test_settings (TradingEngine_init test_settings True)
        (test_env ''u1'') (make_opportunity 60 ''no'' (make_market\<lparr>no_price := None\<rparr>))
        False empty_world) = empty_world
   \<and> snd (PaperTrader_execute_trade (test_env ''u1'')
        (make_opportunity 60 ''no'' (make_market\<lparr>no_price := None\<rparr>)) empty_world)
       = empty_world"
proof -
  let ?opp = "make_opportunity 60 ''no'' (make_market\<lparr>no_price := None\<rparr>)"
  let ?eng = "TradingEngine_init test_settings True"
  have h1: "\<not> allowed (check_risk_limits test_settings ?eng (test_env ''u1'') ?opp empty_world)"
    by (simp add: check_risk_limits_def Let_def check_limits_allowed check_limits_tag
        make_opportunity_def TradingEngine_init_def RiskManager_default_def
        RiskManager_init_def test_settings_def)
  have h2: "side_price ?opp = None"
    by (simp add: side_price_def make_opportunity_def make_market_def)
  have h3: "trader ?eng = PaperTrader"
    by (simp add: TradingEngine_init_def)
  note T = failed_execution_writes_nothing [of False test_settings ?eng "test_env ''u1''" ?opp
      empty_world]
  from T h1 have c1: "snd (execute_opportunity test_settings ?eng (test_env ''u1'') ?opp False
      empty_world) = empty_world"
    by simp
  from T h2 have c2: "snd (PaperTrader_execute_trade (test_env ''u1'') ?opp empty_world)
      = empty_world"
    by auto
  from h1 h2 h3 c1 c2 show ?thesis by blast
qed

section \<open>Admission and the ledger\<close>

lemma PaperTrader_db:
  "db (snd (PaperTrader_execute_trade e opp w)) = db w
   \<or> (\<exists>r. db (snd (PaperTrader_execute_trade e opp w)) = db w @ [r]
          \<and> TradeDB.status r = ''open''
          \<and> TradeDB.amount r = recommended_amount opp
          \<and> TradeDB.platform r = Market.platform (market opp)
          \<and> TradeDB.market_id r = Market.market_id (market opp))"
  by (simp add: PaperTrader_execute_trade_def Let_def split: option.split sum.split)

lemma execute_trade_db:
  "db (snd (execute_trade tr e opp w)) = db w
   \<or> (\<exists>r. db (snd (execute_trade tr e opp w)) = db w @ [r]
          \<and> TradeDB.status r = ''open''
          \<and> TradeDB.amount r = recommended_amount opp
          \<and> TradeDB.platform r = Market.platform (market opp)
          \<and> TradeDB.market_id r = Market.market_id (market opp))"
proof (cases tr)
  case PaperTrader
  then show ?thesis using PaperTrader_db [of e opp w] by simp
next
  case LiveTrader
  then show ?thesis by (simp add: LiveTrader_execute_trade_def)
qed

lemma open_rows_snoc:
  "TradeDB.status r = ''open'' \<Longrightarrow> open_rows (rows @ [r]) = open_rows rows @ [r]"
  by (simp add: open_rows_def)

lemma market_position_count_open_rows:
  "market_position_count opp rows =
     length (filter (\<lambda>r. TradeDB.platform r = Market.platform (market opp)
                         \<and> TradeDB.market_id r = Market.market_id (market opp))
               (open_rows rows))"
  by (simp add: market_position_count_def get_positions_open_rows filter_map comp_def
      to_position_fields)

lemma allowed_bounds:
  assumes "allowed (check_risk_limits settings self e opp w)"
  shows "total_exposure (get_exposure settings ts (db w)) + recommended_amount opp
           \<le> RiskManager.max_total_exposure (risk_manager self)"
    and "int (market_position_count opp (db w)) < max_positions_per_market (risk_manager self)"
proof -
  have tag: "limit_tag (check_limits (risk_manager self) opp
               (get_exposure settings (today_start e) (db w)) (get_positions (db w))) = None"
    using assms by (simp add: check_risk_limits_def Let_def check_limits_allowed)
  have tot: "total_exposure (get_exposure settings (today_start e) (db w))
      = total_exposure (get_exposure settings ts (db w))"
    by (simp add: total_exposure_open_rows)
  from tag show "total_exposure (get_exposure settings ts (db w)) + recommended_amount opp
           \<le> RiskManager.max_total_exposure (risk_manager self)"
    unfolding check_limits_tag tot by (simp split: if_splits)
  from tag show "int (market_position_count opp (db w))
      < max_positions_per_market (risk_manager self)"
    unfolding check_limits_tag market_position_count_def by (simp split: if_splits)
qed

lemma serial_execution_within_limits:
  "total_exposure (get_exposure settings ts
       (db (snd (execute_opportunity settings self e opp False w))))
     \<le> max (total_exposure (get_exposure settings ts (db w)))
           (RiskManager.max_total_exposure (risk_manager self))"
  "int (market_position_count opp (db (snd (execute_opportunity settings self e opp False w))))
     \<le> max (int (market_position_count opp (db w)))
           (max_positions_per_market (risk_manager self))"
proof -
  let ?w' = "snd (execute_opportunity settings self e opp False w)"
  have both:
    "total_exposure (get_exposure settings ts (db ?w'))
       \<le> max (total_exposure (get_exposure settings ts (db w)))
             (RiskManager.max_total_exposure (risk_manager self))
     \<and> int (market_position_count opp (db ?w'))
       \<le> max (int (market_position_count opp (db w)))
             (max_positions_per_market (risk_manager self))"
  proof (cases "allowed (check_risk_limits settings self e opp w)")
    case False
    then have "?w' = w" by (simp add: execute_opportunity_cases)
    then show ?thesis by simp
  next
    case True
    then have w': "?w' = snd (execute_trade (trader self) e opp w)"
      by (simp add: execute_opportunity_cases)
    from execute_trade_db [of "trader self" e opp w]
    show ?thesis
    proof
      assume "db (snd (execute_trade (trader self) e opp w)) = db w"
      then show ?thesis by (simp add: w')
    next
      assume "\<exists>r. db (snd (execute_trade (trader self) e opp w)) = db w @ [r]
          \<and> TradeDB.status r = ''open''
          \<and> TradeDB.amount r = recommended_amount opp
          \<and> TradeDB.platform r = Market.platform (market opp)
          \<and> TradeDB.market_id r = Market.market_id (market opp)"
      then obtain r where r: "db ?w' = db w @ [r]" "TradeDB.status r = ''open''"
        "TradeDB.amount r = recommended_amount opp"
        "TradeDB.platform r = Market.platform (market opp)"
        "TradeDB.market_id r = Market.market_id (market opp)"
        unfolding w' by blast
      have "total_exposure (get_exposure settings ts (db ?w'))
          = total_exposure (get_exposure settings ts (db w)) + recommended_amount opp"
        by (simp add: total_exposure_open_rows r open_rows_snoc)
      moreover have "market_position_count opp (db ?w')
          = Suc (market_position_count opp (db w))"
        by (simp add: market_position_count_open_rows r open_rows_snoc)
      ultimately show ?thesis
        using allowed_bounds(1) [OF True, of ts] allowed_bounds(2) [OF True] by simp
    qed
  qed
  from both show "total_exposure (get_exposure settings ts (db ?w'))
       \<le> max (total_exposure (get_exposure settings ts (db w)))
             (RiskManager.max_total_exposure (risk_manager self))" by blast
  from both show "int (market_position_count opp (db ?w'))
       \<le> max (int (market_position_count opp (db w)))
             (max_positions_per_market (risk_manager self))" by blast
qed
lemma capped_engine:
  "risk_manager (TradingEngine_init capped_settings True) =
     \<lparr>RiskManager.max_position_size = 100, max_total_exposure = 100,
      max_daily_volume = 200, max_positions_per_market = 1\<rparr>"
  "trader (TradingEngine_init capped_settings True) = PaperTrader"
  by (simp_all add: TradingEngine_init_def RiskManager_default_def RiskManager_init_def
      capped_settings_def or_float_def)

lemma interleaved_run:
  "outcome (run_schedule capped_settings (TradingEngine_init capped_settings True) two_requests
       [Read 0, Read (Suc 0), Act 0, Act (Suc 0)] (empty_world, [Waiting, Waiting]))
     = Some ([70, 70], [True, True])"
  by (simp add: outcome_def two_requests_def empty_world_def test_env_def
      admit_and_execute_def capped_engine check_limits_def get_exposure_def get_positions_def
      group_exposure_def make_opportunity_def make_market_def Let_def
      PaperTrader_execute_trade_def to_Trade_def TradeSide_of_def TradeStatus_of_def
      Trade_valid_def)

lemma serial_run:
  "outcome (run_schedule capped_settings (TradingEngine_init capped_settings True) two_requests
       [Read 0, Act 0, Read (Suc 0), Act (Suc 0)] (empty_world, [Waiting, Waiting]))
     = Some ([70], [True, False])"
  by (simp add: outcome_def two_requests_def empty_world_def test_env_def
      admit_and_execute_def capped_engine check_limits_def get_exposure_def get_positions_def
      group_exposure_def make_opportunity_def make_market_def Let_def
      PaperTrader_execute_trade_def to_Trade_def TradeSide_of_def TradeStatus_of_def
      Trade_valid_def to_position_def dict_add_def)

lemma serial_run_error:
  "map_option (\<lambda>st. map task_error (snd st))
     (run_schedule capped_settings (TradingEngine_init capped_settings True) two_requests
       [Read 0, Act 0, Read (Suc 0), Act (Suc 0)] (empty_world, [Waiting, Waiting]))
     = Some [None,
         Some [Lit ''Trade would exceed max total exposure. Current: $'', Fmt 70 ''.2f'',
               Lit '', After: $'', Fmt 140 ''.2f'', Lit '', Max: $'', Fmt 100 ''.2f'']]"
  by (simp add: outcome_def two_requests_def empty_world_def test_env_def
      admit_and_execute_def capped_engine check_limits_def get_exposure_def get_positions_def
      group_exposure_def make_opportunity_def make_market_def Let_def
      PaperTrader_execute_trade_def to_Trade_def TradeSide_of_def TradeStatus_of_def
      Trade_valid_def to_position_def dict_add_def)
lemma interleaved_run_exposure:
  "final_total_exposure capped_settings
     (run_schedule capped_settings (TradingEngine_init capped_settings True) two_requests
       [Read 0, Read (Suc 0), Act 0, Act (Suc 0)] (empty_world, [Waiting, Waiting]))
     = Some 140"
  by (simp add: final_total_exposure_def two_requests_def empty_world_def test_env_def
      admit_and_execute_def capped_engine check_limits_def get_exposure_def get_positions_def
      group_exposure_def make_opportunity_def make_market_def Let_def
      PaperTrader_execute_trade_def to_Trade_def TradeSide_of_def TradeStatus_of_def
      Trade_valid_def to_position_def)

text \<open>
  Claim C7, as stated, fails: nothing makes the reads, the decision and the insert of
  \<open>execute_opportunity\<close> one atomic step. When two requests of 70 dollars against a
  total-exposure cap of 100 both take their snapshot of the empty ledger before either
  writes, both pass the check and both trades are recorded: the exposure is 140.
\<close>

theorem concurrent_requests_overshoot:
  "outcome (run_schedule capped_settings (TradingEngine_init capped_settings True) two_requests
       [Read 0, Read (Suc 0), Act 0, Act (Suc 0)] (empty_world, [Waiting, Waiting]))
     = Some ([70, 70], [True, True])
   \<and> final_total_exposure capped_settings
       (run_schedule capped_settings (TradingEngine_init capped_settings True) two_requests
         [Read 0, Read (Suc 0), Act 0, Act (Suc 0)] (empty_world, [Waiting, Waiting]))
     = Some 140
   \<and> RiskManager.max_total_exposure (risk_manager (TradingEngine_init capped_settings True))
     = 100"
  by (intro conjI interleaved_run interleaved_run_exposure) (simp add: capped_engine)

text \<open>
  Claim C7, amended. A request that is not forced and runs alone (its reads, decision and
  write not interleaved with another request) never raises the total exposure above
  \<open>max_total_exposure\<close> nor the number of open positions in its market above
  \<open>max_positions_per_market\<close>: after it, each is at most the larger of its value before and
  the limit. Two requests of 70 dollars against a cap of 100, run one after the other from
  the empty ledger, leave exactly one recorded trade; the second is refused with the
  reason of the \<open>max_total_exposure\<close> check.
\<close>

theorem serial_requests_within_limits:
  "total_exposure (get_exposure settings ts
       (db (snd (execute_opportunity settings self e opp False w))))
     \<le> max (total_exposure (get_exposure settings ts (db w)))
           (RiskManager.max_total_exposure (risk_manager self))
   \<and> int (market_position_count opp
         (db (snd (execute_opportunity settings self e opp False w))))
     \<le> max (int (market_position_count opp (db w)))
           (max_positions_per_market (risk_manager self))
   \<and> outcome (run_schedule capped_settings (TradingEngine_init capped_settings True)
         two_requests [Read 0, Act 0, Read (Suc 0), Act (Suc 0)]
         (empty_world, [Waiting, Waiting]))
     = Some ([70], [True, False])
   \<and> map_option (\<lambda>st. map task_error (snd st))
       (run_schedule capped_settings (TradingEngine_init capped_settings True) two_requests
         [Read 0, Act 0, Read (Suc 0), Act (Suc 0)] (empty_world, [Waiting, Waiting]))
     = Some [None,
         Some [Lit ''Trade would exceed max total exposure. Current: $'', Fmt 70 ''.2f'',
               Lit '', After: $'', Fmt 140 ''.2f'', Lit '', Max: $'', Fmt 100 ''.2f'']]"
  by (intro conjI serial_execution_within_limits serial_run serial_run_error)

section \<open>Lessons of a resolved trade\<close>

lemma identify_positives_nonempty: "identify_positives t w c \<noteq> []"
  unfolding identify_positives_def Let_def by (simp split: if_splits)

lemma suggest_trade_improvements_nonempty: "suggest_trade_improvements t w c ns \<noteq> []"
  unfolding suggest_trade_improvements_def Let_def by (simp split: if_splits)

lemma identify_negatives_empty:
  "identify_negatives t w c = [] \<longleftrightarrow>
     w \<and> \<not> (\<exists>v. c = Some v \<and> v < 0) \<and> Trade.amount t \<le> 50"
  unfolding identify_negatives_def Let_def
  by (auto split: option.splits if_splits)

lemma analyze_resolved_trade_lists:
  assumes "analyze_resolved_trade t = Inr a"
  shows "\<exists>c. what_went_right a = identify_positives t (won a) c
           \<and> what_went_wrong a = identify_negatives t (won a) c
           \<and> suggested_improvements a
              = suggest_trade_improvements t (won a) c (what_went_wrong a)
           \<and> TradeAnalysis.clv a = c"
  using assms
  by (auto simp: analyze_resolved_trade_def bind_exn_def Let_def
      split: if_splits sum.splits)

lemma analyze_resolved_trade_total:
  assumes "Trade_valid t" "Trade.status t \<in> {RESOLVED_WIN, RESOLVED_LOSS}"
  shows "\<exists>a. analyze_resolved_trade t = Inr a"
proof -
  from assms(1) have ep: "Trade.entry_price t \<noteq> 0" "1 - Trade.entry_price t \<noteq> 0"
    by (auto simp: Trade_valid_def)
  have "\<exists>p. or_float_exn (Trade.pnl t)
      (ResolutionAnalyzer_calculate_pnl t (Trade.status t = RESOLVED_WIN)) = Inr p"
    using ep by (simp add: or_float_exn_def ResolutionAnalyzer_calculate_pnl_def py_div_def
        bind_exn_def split: option.split)
  then obtain p where p: "or_float_exn (Trade.pnl t)
      (ResolutionAnalyzer_calculate_pnl t (Trade.status t = RESOLVED_WIN)) = Inr p" ..
  have "\<exists>c. ResolutionAnalyzer_calculate_clv t = Inr c"
    using ep by (simp add: ResolutionAnalyzer_calculate_clv_def py_div_def bind_exn_def Let_def
        split: option.split)
  then obtain c where c: "ResolutionAnalyzer_calculate_clv t = Inr c" ..
  from assms(2) p c show ?thesis
    by (auto simp: analyze_resolved_trade_def bind_exn_def py_div_def Let_def)
qed

lemma what_went_wrong_empty_aux:
  "map_sum (\<lambda>e. e) what_went_wrong
     (analyze_resolved_trade (resolved_trade YES (6 / 10) None RESOLVED_WIN None)) = Inr []"
  by (simp add: analyze_resolved_trade_def resolved_trade_def bind_exn_def or_float_exn_def
      ResolutionAnalyzer_calculate_pnl_def ResolutionAnalyzer_calculate_clv_def py_div_def
      identify_negatives_def Let_def)

text \<open>
  Claim C8, as stated, fails for \<open>what_went_wrong\<close>: \<open>_identify_negatives\<close> has no
  placeholder. A winning trade of 20 dollars with no closing price has an empty list.
\<close>

theorem what_went_wrong_empty:
  "map_sum (\<lambda>e. e) what_went_wrong
     (analyze_resolved_trade (resolved_trade YES (6 / 10) None RESOLVED_WIN None)) = Inr []"
  by (rule what_went_wrong_empty_aux)

text \<open>
  Claim C8, amended. Every resolved trade (a \<open>Trade\<close> whose status is a resolved one) is
  analysed without error, and in the analysis \<open>what_went_right\<close> and
  \<open>suggested_improvements\<close> are never empty: a placeholder line stands in when no rule
  fires. \<open>what_went_wrong\<close> has no placeholder: it is empty exactly when the trade was won,
  its CLV is not negative and its amount is at most 50.
\<close>

theorem lessons_nonempty:
  "(Trade_valid t \<and> Trade.status t \<in> {RESOLVED_WIN, RESOLVED_LOSS}
      \<longrightarrow> (\<exists>a. analyze_resolved_trade t = Inr a))
   \<and> (analyze_resolved_trade t = Inr a \<longrightarrow>
        what_went_right a \<noteq> [] \<and> suggested_improvements a \<noteq> []
        \<and> (what_went_wrong a = [] \<longleftrightarrow>
             won a \<and> \<not> (\<exists>v. TradeAnalysis.clv a = Some v \<and> v < 0) \<and> Trade.amount t \<le> 50))"
proof (intro conjI impI)
  show "\<exists>a. analyze_resolved_trade t = Inr a"
    if "Trade_valid t \<and> Trade.status t \<in> {RESOLVED_WIN, RESOLVED_LOSS}"
    using that analyze_resolved_trade_total by blast
next
  assume "analyze_resolved_trade t = Inr a"
  from analyze_resolved_trade_lists [OF this]
  obtain c where c: "what_went_right a = identify_positives t (won a) c"
    "what_went_wrong a = identify_negatives t (won a) c"
    "suggested_improvements a = suggest_trade_improvements t (won a) c (what_went_wrong a)"
    "TradeAnalysis.clv a = c" by blast
  show "what_went_right a \<noteq> []" by (simp add: c(1) identify_positives_nonempty)
  show "suggested_improvements a \<noteq> []"
    unfolding c(3) by (rule suggest_trade_improvements_nonempty)
  show "what_went_wrong a = [] \<longleftrightarrow>
          won a \<and> \<not> (\<exists>v. TradeAnalysis.clv a = Some v \<and> v < 0) \<and> Trade.amount t \<le> 50"
    by (simp add: c(2) c(4) identify_negatives_empty)
qed

theorem lessons_nonempty_witness:
  "Trade_valid (resolved_trade YES (6 / 10) None RESOLVED_WIN None)
   \<and> Trade.status (resolved_trade YES (6 / 10) None RESOLVED_WIN None)
       \<in> {RESOLVED_WIN, RESOLVED_LOSS}
   \<and> (\<exists>a. analyze_resolved_trade (resolved_trade YES (6 / 10) None RESOLVED_WIN None) = Inr a
          \<and> what_went_right a \<noteq> [] \<and> suggested_improvements a \<noteq> []
          \<and> what_went_wrong a = [])"
proof -
  let ?t = "resolved_trade YES (6 / 10) None RESOLVED_WIN None"
  have v: "Trade_valid ?t" and s: "Trade.status ?t \<in> {RESOLVED_WIN, RESOLVED_LOSS}"
    by (simp_all add: Trade_valid_def resolved_trade_def)
  from lessons_nonempty [of ?t] v s obtain a where a: "analyze_resolved_trade ?t = Inr a"
    by blast
  have w: "what_went_wrong a = []"
    using what_went_wrong_empty_aux a by simp
  from lessons_nonempty [of ?t a] a w v s show ?thesis by blast
qed

section \<open>Strategy evaluation\<close>

lemma mean_nonempty: "xs \<noteq> [] \<Longrightarrow> mean xs = Inr (mean_of xs)"
  by (simp add: mean_def mean_of_def)

lemma stdev_two: "2 \<le> length xs \<Longrightarrow> stdev xs = Inr (stdev_of xs)"
  by (simp add: stdev_def stdev_of_def mean_of_def Let_def)

lemma group_metrics_ok: "\<exists>m. group_metrics ts = Inr m"
  by (simp add: group_metrics_def Let_def bind_exn_def py_div_def mean_def)

lemma group_results_ok: "\<exists>r. group_results g = Inr r"
proof (induction g)
  case Nil
  show ?case by simp
next
  case (Cons kv g)
  obtain k ts where kv: "kv = (k, ts)" by (cases kv)
  obtain m where m: "group_metrics ts = Inr m" using group_metrics_ok by blast
  from Cons.IH obtain r where r: "group_results g = Inr r" by blast
  show ?case by (simp add: kv m r bind_exn_def)
qed

lemma group_by_field_ok:
  "group_by_field ts field =
     Inr (projr (group_results
            (fold (\<lambda>t g. groups_append g (field_or_unknown (field t)) t) ts [])))"
proof -
  obtain r where "group_results
      (fold (\<lambda>t g. groups_append g (field_or_unknown (field t)) t) ts []) = Inr r"
    using group_results_ok by blast
  then show ?thesis by (simp add: group_by_field_def)
qed

lemma calculate_sharpe_value:
  "calculate_sharpe ts =
     Inr (if length ts < 2 \<or> stdev_of (pnls_of ts) = 0 then None
          else Some (round2 (mean_of (pnls_of ts) / stdev_of (pnls_of ts))))"
proof (cases "length ts < 2")
  case True
  then show ?thesis by (simp add: calculate_sharpe_def)
next
  case False
  then have two: "2 \<le> length (pnls_of ts)" and ne: "pnls_of ts \<noteq> []"
    by (auto simp: pnls_of_def)
  show ?thesis
    using False
    by (simp add: calculate_sharpe_def Let_def pnls_of_def[symmetric] mean_nonempty [OF ne]
        stdev_two [OF two] bind_exn_def py_div_def)
qed
lemma guarded_ratio:
  "(c \<Longrightarrow> b \<noteq> 0) \<Longrightarrow> (if c then py_div a b else Inr 0) = Inr (if c then a / b else 0)"
  by (simp add: py_div_def)

lemma guarded_percentage:
  "(if 0 < b then bind_exn (py_div a b) (\<lambda>q. Inr (q * 100)) else Inr 0)
     = Inr (if 0 < b then a / b * 100 else 0)"
  by (simp add: py_div_def bind_exn_def)

lemma guarded_mean:
  "(if xs \<noteq> [] then mean xs else Inr 0) = Inr (if xs \<noteq> [] then mean_of xs else 0)"
  by (simp add: mean_nonempty)

lemma bind_exn_Inr: "bind_exn (Inr x) f = f x"
  by (simp add: bind_exn_def)

lemma evaluate_strategy_value:
  "\<exists>perf. evaluate_strategy trs now name p so eo = Inr perf
     \<and> StrategyPerformance.win_rate perf =
         (if resolved_of (strategy_window trs now name p so eo) = [] then 0
          else real (length (filter (\<lambda>t. Trade.status t = RESOLVED_WIN)
                     (resolved_of (strategy_window trs now name p so eo))))
               / real (length (resolved_of (strategy_window trs now name p so eo))))
     \<and> sharpe_ratio perf =
         (if length (resolved_of (strategy_window trs now name p so eo)) < 2
             \<or> stdev_of (pnls_of (resolved_of (strategy_window trs now name p so eo))) = 0
          then None
          else Some (round2
                 (mean_of (pnls_of (resolved_of (strategy_window trs now name p so eo)))
                  / stdev_of (pnls_of (resolved_of (strategy_window trs now name p so eo))))))"
proof (cases "strategy_window trs now name p so eo = []")
  case True
  then have "evaluate_strategy trs now name p so eo =
      Inr (empty_performance name p
             (case so of None \<Rightarrow> get_period_start p (case eo of None \<Rightarrow> now | Some d \<Rightarrow> d)
              | Some d \<Rightarrow> d)
             (case eo of None \<Rightarrow> now | Some d \<Rightarrow> d))"
    by (simp add: evaluate_strategy_def strategy_window_def Let_def)
  then show ?thesis
    using True by (simp add: empty_performance_def resolved_of_def)
next
  case False
  define R where "R = resolved_of (strategy_window trs now name p so eo)"
  have wr: "(if R \<noteq> [] then py_div (real (length (filter (\<lambda>t. Trade.status t = RESOLVED_WIN) R)))
                          (real (length R)) else Inr 0)
      = Inr (if R \<noteq> [] then real (length (filter (\<lambda>t. Trade.status t = RESOLVED_WIN) R))
                              / real (length R) else 0)"
    by (rule guarded_ratio) simp
  have cr: "\<And>xs ys :: real list. (if xs \<noteq> [] then py_div (real (length ys)) (real (length xs))
        else Inr 0) = Inr (if xs \<noteq> [] then real (length ys) / real (length xs) else 0)"
    by (rule guarded_ratio) simp
  show ?thesis
    using False
    unfolding R_def[symmetric]
    by (simp add: evaluate_strategy_def strategy_window_def[symmetric, unfolded Let_def]
        Let_def resolved_of_def[symmetric, simplified] R_def[symmetric]
        guarded_mean group_by_field_ok guarded_percentage calculate_sharpe_value wr cr
        bind_exn_Inr)
qed
lemma sharpe_example_facts:
  "strategy_window sharpe_example 10 ''test-strategy'' ''all_time'' (Some 0) None = sharpe_example"
  "resolved_of sharpe_example = sharpe_example"
  "pnls_of sharpe_example = [- 2, 1, 4]"
  by (simp_all add: strategy_window_def resolved_of_def pnls_of_def sharpe_example_def
      pnl_trade_def resolved_trade_def or_float_def Let_def)

lemma sharpe_example_stats:
  "mean_of [- 2, 1, 4] = 1" "stdev_of [- 2, 1, 4] = 3"
proof -
  show m: "mean_of [- 2, 1, 4] = 1" by (simp add: mean_of_def)
  have "stdev_of [- 2, 1, 4] = sqrt 9" by (simp add: stdev_of_def m)
  also have "\<dots> = 3" by (simp add: real_sqrt_unique)
  finally show "stdev_of [- 2, 1, 4] = 3" .
qed

lemma sharpe_example_ratio:
  "map_sum (\<lambda>e. e) sharpe_ratio
     (evaluate_strategy sharpe_example 10 ''test-strategy'' ''all_time'' (Some 0) None)
     = Inr (Some (33 / 100))"
proof -
  from evaluate_strategy_value [of sharpe_example 10 "''test-strategy''" "''all_time''" "Some 0" None]
  obtain perf where
    perf: "evaluate_strategy sharpe_example 10 ''test-strategy'' ''all_time'' (Some 0) None
             = Inr perf"
    and sr: "sharpe_ratio perf = Some (round2 (1 / 3))"
    unfolding sharpe_example_facts sharpe_example_stats
    by (auto simp: sharpe_example_def)
  have "round2 (1 / 3) = 33 / 100" by (simp add: round2_def Let_def)
  with perf sr show ?thesis by simp
qed

text \<open>
  Claim C9, as stated, fails in its last part: the ratio is rounded to two decimals. For
  resolved trades with PnL -2, +1, +4 the mean is 1 and the standard deviation 3; the
  ratio returned is 0.33, not 1/3.
\<close>

theorem sharpe_ratio_is_rounded:
  "map_sum (\<lambda>e. e) sharpe_ratio
     (evaluate_strategy sharpe_example 10 ''test-strategy'' ''all_time'' (Some 0) None)
     = Inr (Some (33 / 100))
   \<and> pnls_of (resolved_of
        (strategy_window sharpe_example 10 ''test-strategy'' ''all_time'' (Some 0) None))
     = [- 2, 1, 4]
   \<and> mean_of [- 2, 1, 4] / stdev_of [- 2, 1, 4] = 1 / 3"
  by (simp add: sharpe_example_ratio sharpe_example_facts sharpe_example_stats)

text \<open>
  Claim C9, amended. \<open>evaluate_strategy\<close> raises no exception, whatever the trades, the
  strategy, the period and the dates: every division is guarded. The win rate is 0 when the
  window holds no resolved trade, and the number of wins over the number of resolved trades
  otherwise. The risk-adjusted ratio is \<open>None\<close> when there are fewer than two resolved
  trades or the standard deviation of their PnL is 0, and otherwise the mean of the PnL
  over its sample standard deviation, rounded to two decimals.
\<close>

theorem evaluate_strategy_never_divides_by_zero:
  "\<exists>perf. evaluate_strategy trs now name p so eo = Inr perf
     \<and> StrategyPerformance.win_rate perf =
         (if resolved_of (strategy_window trs now name p so eo) = [] then 0
          else real (length (filter (\<lambda>t. Trade.status t = RESOLVED_WIN)
                     (resolved_of (strategy_window trs now name p so eo))))
               / real (length (resolved_of (strategy_window trs now name p so eo))))
     \<and> sharpe_ratio perf =
         (if length (resolved_of (strategy_window trs now name p so eo)) < 2
             \<or> stdev_of (pnls_of (resolved_of (strategy_window trs now name p so eo))) = 0
          then None
          else Some (round2
                 (mean_of (pnls_of (resolved_of (strategy_window trs now name p so eo)))
                  / stdev_of (pnls_of (resolved_of (strategy_window trs now name p so eo))))))"
  by (rule evaluate_strategy_value)

end
